theory Spec2Isabelle
  imports Complex_Main "HOL-Library.Word"
begin

section \<open>download\_prism.py: paths, dates, archives and the pipeline driver\<close>

text \<open>
  The program downloads daily PRISM archives, unpacks each one into a temporary
  directory, normalises the raster and combines the days into one store. The
  embedding follows \<^verbatim>\<open>src/download_prism.py\<close> function by function. Library
  calls the program makes (\<^verbatim>\<open>pathlib\<close>, \<^verbatim>\<open>str.split\<close>, \<^verbatim>\<open>datetime.strptime\<close>,
  \<^verbatim>\<open>retry_call\<close>, \<^verbatim>\<open>functools.cache\<close>, \<^verbatim>\<open>TemporaryDirectory\<close>) are written out as
  HOL functions with the behaviour the libraries document; collaborators whose
  result depends on the outside world (the remote store, the zip reader, the
  raster library) are fields of an environment record.
\<close>

subsection \<open>Exceptions\<close>

datatype error =
    ZipBilFileError
  | TimeoutError
  | ValueError
  | IndexError
  | KeyError
  | External string

type_synonym bytes = "8 word list"

subsection \<open>Strings: \<^verbatim>\<open>str.split\<close>, \<^verbatim>\<open>str.rfind\<close>, negative indexing\<close>

text \<open>\<^verbatim>\<open>s.split(sep)\<close> for a one-character separator: never the empty list.\<close>

fun str_split :: "char \<Rightarrow> string \<Rightarrow> string list" where
  "str_split sep [] = [[]]"
| "str_split sep (c # cs) =
     (if c = sep then [] # str_split sep cs
      else (case str_split sep cs of
              w # ws \<Rightarrow> (c # w) # ws
            | [] \<Rightarrow> [[c]]))"

text \<open>\<^verbatim>\<open>s.rfind(c)\<close>: the index of the last occurrence; \<open>None\<close> stands for -1.\<close>

definition rfind :: "char \<Rightarrow> string \<Rightarrow> nat option" where
  "rfind c s =
     (if c \<in> set s
      then Some (length s - 1 - length (takeWhile (\<lambda>x. x \<noteq> c) (rev s)))
      else None)"

text \<open>\<^verbatim>\<open>xs[-2]\<close>: IndexError on a list with fewer than two elements.\<close>

definition getitem_neg2 :: "'a list \<Rightarrow> error + 'a" where
  "getitem_neg2 xs =
     (if length xs < 2 then Inl IndexError else Inr (xs ! (length xs - 2)))"

subsection \<open>\<^verbatim>\<open>pathlib.Path\<close> (POSIX flavour)\<close>

text \<open>
  A path is its root (\<open>''''\<close>, \<open>''/''\<close> or \<open>''//''\<close>) and its components. Parsing a
  string splits at \<open>/\<close> and drops empty and \<open>.\<close> components. The name is the last
  component; suffix and stem cut the name at its last dot, unless that dot is the
  first or the last character (Python 3.9 to 3.13).
\<close>

datatype path = PurePath (anchor: string) (tail: "string list")

definition splitroot :: "string \<Rightarrow> string" where
  "splitroot s =
     (let n = length (takeWhile (\<lambda>c. c = CHR ''/'') s)
      in if n = 0 then [] else if n = 2 then ''//'' else ''/'')"

definition Path :: "string \<Rightarrow> path" where
  "Path s = PurePath (splitroot s)
     (filter (\<lambda>x. x \<noteq> [] \<and> x \<noteq> ''.'') (str_split CHR ''/'' s))"

definition path_name :: "path \<Rightarrow> string" where
  "path_name p = (if tail p = [] then [] else last (tail p))"

definition path_suffix :: "path \<Rightarrow> string" where
  "path_suffix p =
     (let name = path_name p in
      case rfind CHR ''.'' name of
        None \<Rightarrow> []
      | Some i \<Rightarrow> if 0 < i \<and> i + 1 < length name then drop i name else [])"

definition path_stem :: "path \<Rightarrow> string" where
  "path_stem p =
     (let name = path_name p in
      case rfind CHR ''.'' name of
        None \<Rightarrow> name
      | Some i \<Rightarrow> if 0 < i \<and> i + 1 < length name then take i name else name)"

definition joinpath :: "path \<Rightarrow> string \<Rightarrow> path" where
  "joinpath p s =
     (let q = Path s in
      if anchor q \<noteq> [] then q else PurePath (anchor p) (tail p @ tail q))"

definition with_suffix :: "path \<Rightarrow> string \<Rightarrow> error + path" where
  "with_suffix p suffix =
     (if CHR ''/'' \<in> set suffix then Inl ValueError
      else if (suffix \<noteq> [] \<and> hd suffix \<noteq> CHR ''.'') \<or> suffix = ''.'' then Inl ValueError
      else if path_name p = [] then Inl ValueError
      else
        let name = path_name p; old_suffix = path_suffix p;
            name' = (if old_suffix = [] then name @ suffix
                     else take (length name - length old_suffix) name @ suffix)
        in Inr (PurePath (anchor p) (butlast (tail p) @ [name'])))"

subsection \<open>\<^verbatim>\<open>datetime.strptime(s, "%Y%m%d")\<close>\<close>

text \<open>
  \<^verbatim>\<open>strptime\<close> compiles the format to the regular expression
  \<^verbatim>\<open>(?P<Y>\d\d\d\d)(?P<m>1[0-2]|0[1-9]|[1-9])(?P<d>3[0-1]|[1-2]\d|0[1-9]|[1-9]| [1-9])\<close>
  and matches it at the start of the string with a backtracking matcher. A matcher
  here returns every way to match a prefix, in the order the backtracking search
  tries them, so that the head of the list is the match \<^verbatim>\<open>re.match\<close> finds.
\<close>

type_synonym matcher = "string \<Rightarrow> (string \<times> string) list"

definition one_of :: "string \<Rightarrow> matcher" where
  "one_of cs s = (case s of [] \<Rightarrow> [] | c # r \<Rightarrow> if c \<in> set cs then [([c], r)] else [])"

definition re_seq :: "matcher \<Rightarrow> matcher \<Rightarrow> matcher" where
  "re_seq p q s = concat (map (\<lambda>(a, r). map (\<lambda>(b, r'). (a @ b, r')) (q r)) (p s))"

definition re_alt :: "matcher \<Rightarrow> matcher \<Rightarrow> matcher" where
  "re_alt p q s = p s @ q s"


definition digit :: matcher where
  "digit = one_of ''0123456789''"

definition re_Y :: matcher where
  "re_Y = re_seq digit (re_seq digit (re_seq digit digit))"

definition re_m :: matcher where
  "re_m = re_alt (re_seq (one_of ''1'') (one_of ''012''))
         (re_alt (re_seq (one_of ''0'') (one_of ''123456789''))
                 (one_of ''123456789''))"

definition re_d :: matcher where
  "re_d = re_alt (re_seq (one_of ''3'') (one_of ''01''))
         (re_alt (re_seq (one_of ''12'') digit)
         (re_alt (re_seq (one_of ''0'') (one_of ''123456789''))
         (re_alt (one_of ''123456789'')
                 (re_seq (one_of '' '') (one_of ''123456789'')))))"

text \<open>\<^verbatim>\<open>int(s)\<close> on a matched group: decimal digits after optional blanks.\<close>

definition digit_val :: "char \<Rightarrow> nat" where
  "digit_val c = of_char c - 48"

definition int_of_str :: "string \<Rightarrow> nat" where
  "int_of_str s =
     foldl (\<lambda>n c. 10 * n + digit_val c) 0 (dropWhile (\<lambda>c. c = CHR '' '') s)"

text \<open>The result: a \<^verbatim>\<open>datetime\<close> at midnight, so year, month and day identify it.\<close>

datatype datetime = Datetime (dt_year: nat) (dt_month: nat) (dt_day: nat)

definition is_leap :: "nat \<Rightarrow> bool" where
  "is_leap y = (y mod 4 = 0 \<and> (y mod 100 \<noteq> 0 \<or> y mod 400 = 0))"

definition days_in_month :: "nat \<Rightarrow> nat \<Rightarrow> nat" where
  "days_in_month y m =
     (if m = 2 then (if is_leap y then 29 else 28)
      else if m = 4 \<or> m = 6 \<or> m = 9 \<or> m = 11 then 30 else 31)"

text \<open>The \<^verbatim>\<open>date(year, month, day)\<close> constructor: ValueError outside the calendar.\<close>

definition mk_datetime :: "nat \<Rightarrow> nat \<Rightarrow> nat \<Rightarrow> error + datetime" where
  "mk_datetime y m d =
     (if 1 \<le> y \<and> y \<le> 9999 \<and> 1 \<le> m \<and> m \<le> 12 \<and> 1 \<le> d \<and> d \<le> days_in_month y m
      then Inr (Datetime y m d) else Inl ValueError)"

definition strptime_matches :: "string \<Rightarrow> (string \<times> string \<times> string \<times> string) list" where
  "strptime_matches s =
     concat (map (\<lambda>(y, r1).
       concat (map (\<lambda>(m, r2).
         map (\<lambda>(d, r3). (y, m, d, r3)) (re_d r2)) (re_m r1))) (re_Y s))"

definition strptime_Ymd :: "string \<Rightarrow> error + datetime" where
  "strptime_Ymd s =
     (case strptime_matches s of
        [] \<Rightarrow> Inl ValueError
      | (y, m, d, rest) # _ \<Rightarrow>
          if rest \<noteq> [] then Inl ValueError
          else mk_datetime (int_of_str y) (int_of_str m) (int_of_str d))"

subsection \<open>\<^verbatim>\<open>_datetime_from_prism_flname\<close>\<close>

definition datetime_from_prism_flname :: "path \<Rightarrow> error + datetime" where
  "datetime_from_prism_flname p =
     (case getitem_neg2 (str_split CHR ''_'' (path_stem p)) of
        Inl e \<Rightarrow> Inl e
      | Inr tok \<Rightarrow> strptime_Ymd tok)"

subsection \<open>The state of the run\<close>

text \<open>
  What the program can change or cause: the local files, the temporary directories,
  the memo table of \<^verbatim>\<open>get_prism_daily_urls\<close>, the consolidated stores written so far,
  and the trace of effects in the order they happen. \<^verbatim>\<open>tempfile\<close> draws a fresh random
  name for each directory; the state numbers them, so that no name is drawn twice.
  The two call counters tell the remote store which call it is answering, so that it
  may answer the same request differently over time.
\<close>

record filesystem =
  fs_protocol :: string
  fs_host :: string
  fs_timeout :: nat

datatype year_arg = YearInt int | YearStr string

type_synonym cache_key = "year_arg \<times> filesystem \<times> string \<times> string \<times> string \<times> string"

datatype event =
    Glob string
  | GetFile string path
  | Sleep nat
  | MkDtemp path
  | Rmtree path
  | WriteFile path bytes
  | OpenRasterio path
  | ToNetcdf path
  | OpenMfdataset "path list"
  | ToZarr string

record world =
  files :: "path \<rightharpoonup> bytes"
  dirs :: "path set"
  tmp_count :: nat
  get_file_calls :: nat
  glob_calls :: nat
  urls_cache :: "cache_key \<rightharpoonup> string list"
  zarr_stores :: "string \<rightharpoonup> bytes option list"
  trace :: "event list"

text \<open>A computation runs on the state and returns a value or raises.\<close>

type_synonym 'r m = "world \<Rightarrow> (error + 'r) \<times> world"

definition ret :: "'r \<Rightarrow> 'r m" where
  "ret x w = (Inr x, w)"

definition andthen :: "'r m \<Rightarrow> ('r \<Rightarrow> 's m) \<Rightarrow> 's m" where
  "andthen f g w = (case f w of (Inl e, w') \<Rightarrow> (Inl e, w') | (Inr x, w') \<Rightarrow> g x w')"

definition emit :: "event \<Rightarrow> world \<Rightarrow> world" where
  "emit e w = w\<lparr>trace := trace w @ [e]\<rparr>"

subsection \<open>\<^verbatim>\<open>tempfile.TemporaryDirectory\<close>\<close>

definition tmp_path :: "nat \<Rightarrow> path" where
  "tmp_path n = PurePath ''/'' [''tmp'', ''tmp'' @ replicate n CHR ''x'']"

text \<open>\<open>is_under d p\<close>: the path \<open>p\<close> is the directory \<open>d\<close> or lies below it.\<close>

definition is_under :: "path \<Rightarrow> path \<Rightarrow> bool" where
  "is_under d p = (anchor p = anchor d \<and> take (length (tail d)) (tail p) = tail d)"

definition mkdtemp :: "world \<Rightarrow> path \<times> world" where
  "mkdtemp w =
     (let d = tmp_path (tmp_count w)
      in (d, emit (MkDtemp d) (w\<lparr>dirs := insert d (dirs w), tmp_count := Suc (tmp_count w)\<rparr>)))"

definition rmtree :: "path \<Rightarrow> world \<Rightarrow> world" where
  "rmtree d w =
     emit (Rmtree d)
       (w\<lparr>files := (\<lambda>p. if is_under d p then None else files w p),
          dirs := {p \<in> dirs w. \<not> is_under d p}\<rparr>)"

text \<open>
  \<^verbatim>\<open>with TemporaryDirectory() as tmpdir: body\<close>. The directory is removed when the block
  is left, by its end or by an exception.
\<close>

definition TemporaryDirectory :: "(path \<Rightarrow> 'r m) \<Rightarrow> 'r m" where
  "TemporaryDirectory body w =
     (case mkdtemp w of (tmpdir, w1) \<Rightarrow>
        (case body tmpdir w1 of (r, w2) \<Rightarrow> (r, rmtree tmpdir w2)))"

subsection \<open>\<^verbatim>\<open>_dump_zippedbil\<close>\<close>

text \<open>
  An open member of the archive: its \<^verbatim>\<open>name\<close> and what \<^verbatim>\<open>read()\<close> returns.
  \<^verbatim>\<open>open(outpath, "wb")\<close> followed by \<^verbatim>\<open>write\<close> replaces the file's content; that the
  operating system refuses the write (no space, no permission, a name it does not
  accept) is not part of the model.
\<close>

datatype member = Member (fl_name: string) (fl_read: bytes)

definition write_bytes :: "path \<Rightarrow> bytes \<Rightarrow> world \<Rightarrow> world" where
  "write_bytes p data w = emit (WriteFile p data) (w\<lparr>files := (files w)(p \<mapsto> data)\<rparr>)"

fun dump_loop :: "member list \<Rightarrow> path \<Rightarrow> path option \<Rightarrow> path option m" where
  "dump_loop [] dumpdir bil_path w = (Inr bil_path, w)"
| "dump_loop (fl # ofs) dumpdir bil_path w =
     (let p = Path (fl_name fl);
          outpath = joinpath dumpdir (path_name p);
          w' = write_bytes outpath (fl_read fl) w
      in if path_suffix p = ''.bil''
         then (if bil_path \<noteq> None then (Inl ZipBilFileError, w')
               else dump_loop ofs dumpdir (Some outpath) w')
         else dump_loop ofs dumpdir bil_path w')"

definition dump_zippedbil :: "member list \<Rightarrow> path \<Rightarrow> path m" where
  "dump_zippedbil ofs dumpdir w =
     (case dump_loop ofs dumpdir None w of
        (Inl e, w') \<Rightarrow> (Inl e, w')
      | (Inr None, w') \<Rightarrow> (Inl ZipBilFileError, w')
      | (Inr (Some bil_path), w') \<Rightarrow> (Inr bil_path, w'))"

text \<open>The test the loop applies to a member, and the path it writes the member to.\<close>

definition is_bil :: "member \<Rightarrow> bool" where
  "is_bil fl = (path_suffix (Path (fl_name fl)) = ''.bil'')"

definition outpath_of :: "path \<Rightarrow> member \<Rightarrow> path" where
  "outpath_of dumpdir fl = joinpath dumpdir (path_name (Path (fl_name fl)))"

text \<open>Writing the members of a list in order: what the loop does while it does not raise.\<close>

definition write_all :: "path \<Rightarrow> member list \<Rightarrow> world \<Rightarrow> world" where
  "write_all dumpdir ofs w = fold (\<lambda>fl. write_bytes (outpath_of dumpdir fl) (fl_read fl)) ofs w"

text \<open>The state when the process starts.\<close>

definition init_world :: world where
  "init_world =
     \<lparr>files = Map.empty, dirs = {}, tmp_count = 0, get_file_calls = 0, glob_calls = 0,
      urls_cache = Map.empty, zarr_stores = Map.empty, trace = []\<rparr>"

subsection \<open>The collaborators\<close>

text \<open>
  A \<^verbatim>\<open>DataArray\<close> is its name, its attributes and the labelled grid, which the program
  never looks into. The environment gives, for every call the program makes to a
  collaborator, the value the call returns or the exception it raises:
  \<^item> the remote store: \<^verbatim>\<open>fs.get_file\<close> and \<^verbatim>\<open>fs.glob\<close>, answering the \<open>n\<close>-th call;
  \<^item> the members \<^verbatim>\<open>fsspec.open_files("zip://*::...")\<close> finds in a downloaded file;
  \<^item> \<^verbatim>\<open>rioxarray\<close> and \<^verbatim>\<open>xarray\<close>: opening a raster, the array operations of the
    normaliser, the bytes of a netCDF file, and the failures of the combined open and
    of the consolidated write, which read the intermediate files.
\<close>

record 'a dataarray =
  da_name :: "string option"
  attrs :: "string \<rightharpoonup> string"
  grid :: 'a

record 'a env =
  get_file_result :: "nat \<Rightarrow> filesystem \<Rightarrow> string \<Rightarrow> error + bytes"
  glob_result :: "nat \<Rightarrow> filesystem \<Rightarrow> string \<Rightarrow> error + string list"
  zip_members :: "bytes \<Rightarrow> error + member list"
  rasterio_open :: "path \<Rightarrow> (path \<rightharpoonup> bytes) \<Rightarrow> error + 'a dataarray"
  rio_reproject :: "string \<Rightarrow> 'a dataarray \<Rightarrow> error + 'a dataarray"
  rio_clip_box :: "real \<Rightarrow> real \<Rightarrow> real \<Rightarrow> real \<Rightarrow> 'a dataarray \<Rightarrow> error + 'a dataarray"
  xr_drop :: "string \<Rightarrow> 'a dataarray \<Rightarrow> error + 'a dataarray"
  xr_squeeze :: "'a dataarray \<Rightarrow> error + 'a dataarray"
  xr_rename :: "(string \<times> string) list \<Rightarrow> 'a dataarray \<Rightarrow> error + 'a dataarray"
  xr_expand_dims :: "string \<Rightarrow> 'a dataarray \<Rightarrow> error + 'a dataarray"
  xr_assign_coords :: "string \<Rightarrow> datetime list \<Rightarrow> 'a dataarray \<Rightarrow> error + 'a dataarray"
  netcdf_bytes :: "'a dataarray \<Rightarrow> error + bytes"
  mfdataset_error :: "bytes option list \<Rightarrow> error option"
  zarr_error :: "bytes option list \<Rightarrow> string \<Rightarrow> error option"

definition lift :: "error + 'r \<Rightarrow> 'r m" where
  "lift r w = (r, w)"

definition sum_bind :: "error + 'r \<Rightarrow> ('r \<Rightarrow> error + 's) \<Rightarrow> error + 's" where
  "sum_bind r f = (case r of Inl e \<Rightarrow> Inl e | Inr x \<Rightarrow> f x)"

subsection \<open>\<^verbatim>\<open>retry_call\<close> and the download\<close>

text \<open>
  \<^verbatim>\<open>fs.get_file(rpath, lpath)\<close>: the remote store answers this call with the file's bytes,
  which land at \<open>lpath\<close>, or with an exception.
\<close>

definition get_file :: "'a env \<Rightarrow> filesystem \<Rightarrow> string \<Rightarrow> path \<Rightarrow> unit m" where
  "get_file env fs rpath lpath w =
     (let w1 = emit (GetFile rpath lpath) (w\<lparr>get_file_calls := Suc (get_file_calls w)\<rparr>)
      in case get_file_result env (get_file_calls w) fs rpath of
           Inl e \<Rightarrow> (Inl e, w1)
         | Inr data \<Rightarrow> (Inr (), w1\<lparr>files := (files w1)(lpath \<mapsto> data)\<rparr>))"

definition sleep :: "nat \<Rightarrow> world \<Rightarrow> world" where
  "sleep seconds w = emit (Sleep seconds) w"

text \<open>
  The loop of the \<^verbatim>\<open>retry\<close> package, with no jitter and no maximal delay:
  \<^verbatim>\<open>
  while _tries:
      try:
          return f()
      except exceptions as e:
          _tries -= 1
          if not _tries:
              raise
          time.sleep(_delay)
          _delay *= backoff
  \<close>
  With no tries left at the start the loop body never runs and the call returns
  \<^verbatim>\<open>None\<close>.
\<close>

fun retry_internal :: "'r m \<Rightarrow> error list \<Rightarrow> nat \<Rightarrow> nat \<Rightarrow> nat \<Rightarrow> 'r option m" where
  "retry_internal f exceptions 0 delay backoff w = (Inr None, w)"
| "retry_internal f exceptions (Suc tries) delay backoff w =
     (case f w of
        (Inr x, w') \<Rightarrow> (Inr (Some x), w')
      | (Inl e, w') \<Rightarrow>
          if e \<in> set exceptions
          then (if tries = 0 then (Inl e, w')
                else retry_internal f exceptions tries (delay * backoff) backoff (sleep delay w'))
          else (Inl e, w'))"

definition retry_call :: "'r m \<Rightarrow> error list \<Rightarrow> nat \<Rightarrow> nat \<Rightarrow> nat \<Rightarrow> 'r option m" where
  "retry_call f exceptions tries delay backoff = retry_internal f exceptions tries delay backoff"

subsection \<open>\<^verbatim>\<open>unpacked_prismzip_bil\<close>\<close>

definition open_files_zip :: "'a env \<Rightarrow> path \<Rightarrow> member list m" where
  "open_files_zip env zip_path w =
     (case files w zip_path of
        None \<Rightarrow> (Inl (External ''FileNotFoundError''), w)
      | Some data \<Rightarrow> (zip_members env data, w))"

text \<open>
  The context manager, applied to the body of the \<^verbatim>\<open>with\<close> statement that uses it: the
  body runs at the \<^verbatim>\<open>yield\<close>, inside both \<^verbatim>\<open>with\<close> blocks of the generator.
\<close>

definition unpacked_prismzip_bil :: "'a env \<Rightarrow> string \<Rightarrow> filesystem \<Rightarrow> (path \<Rightarrow> 'r m) \<Rightarrow> 'r m" where
  "unpacked_prismzip_bil env url fs body =
     TemporaryDirectory (\<lambda>tmpdir.
       let tmpzip_path = joinpath tmpdir (path_name (Path url)) in
       andthen (retry_call (get_file env fs url tmpzip_path) [TimeoutError] 3 30 2) (\<lambda>_.
       andthen (open_files_zip env tmpzip_path) (\<lambda>zipped_files.
       andthen (dump_zippedbil zipped_files tmpdir) (\<lambda>target_bil_path.
       body target_bil_path))))"

text \<open>
  Two names for stating what the context manager does. \<open>unzip_then\<close> is its inner
  \<^verbatim>\<open>with\<close> block alone: open the downloaded archive, extract it, run the body.
  \<open>after_attempts w d k evs\<close> is the state \<open>w\<close> once the temporary directory \<open>d\<close> exists and
  \<open>k\<close> calls of \<^verbatim>\<open>get_file\<close> with the effects \<open>evs\<close> have been made, before any file is stored.
\<close>

definition unzip_then :: "'a env \<Rightarrow> path \<Rightarrow> path \<Rightarrow> (path \<Rightarrow> 'r m) \<Rightarrow> 'r m" where
  "unzip_then env tmpzip_path tmpdir body =
     andthen (open_files_zip env tmpzip_path) (\<lambda>zipped_files.
     andthen (dump_zippedbil zipped_files tmpdir) (\<lambda>target_bil_path.
     body target_bil_path))"

definition after_attempts :: "world \<Rightarrow> path \<Rightarrow> nat \<Rightarrow> event list \<Rightarrow> world" where
  "after_attempts w d k evs =
     w\<lparr>dirs := insert d (dirs w), tmp_count := Suc (tmp_count w),
       get_file_calls := get_file_calls w + k, trace := trace w @ MkDtemp d # evs\<rparr>"

subsection \<open>\<^verbatim>\<open>get_prism_daily_urls\<close>\<close>

fun str_nat :: "nat \<Rightarrow> string" where
  "str_nat n =
     (if n < 10 then [''0123456789'' ! n]
      else str_nat (n div 10) @ [''0123456789'' ! (n mod 10)])"

declare str_nat.simps [simp del]

definition str_int :: "int \<Rightarrow> string" where
  "str_int i = (if i < 0 then CHR ''-'' # str_nat (nat (- i)) else str_nat (nat i))"

definition format_year :: "year_arg \<Rightarrow> string" where
  "format_year year = (case year of YearInt i \<Rightarrow> str_int i | YearStr s \<Rightarrow> s)"

definition target_file_glob :: "year_arg \<Rightarrow> string \<Rightarrow> string \<Rightarrow> string \<Rightarrow> string \<Rightarrow> string" where
  "target_file_glob year variable stability scale version =
     ''/daily/'' @ variable @ ''/'' @ format_year year @ ''/PRISM_'' @ variable @ ''_''
       @ stability @ ''_'' @ scale @ version @ ''_'' @ format_year year @ ''*_bil.zip''"

definition fs_glob :: "'a env \<Rightarrow> filesystem \<Rightarrow> string \<Rightarrow> string list m" where
  "fs_glob env fs pattern w =
     (glob_result env (glob_calls w) fs pattern,
      emit (Glob pattern) (w\<lparr>glob_calls := Suc (glob_calls w)\<rparr>))"

text \<open>
  \<^verbatim>\<open>functools.cache\<close>: the result of a call that returns is stored under the call's
  arguments and returned for them from then on; a call that raises stores nothing.
  The arguments are the year, the file system handle and the four strings.
\<close>

definition cached :: "cache_key \<Rightarrow> string list m \<Rightarrow> string list m" where
  "cached key f w =
     (case urls_cache w key of
        Some result \<Rightarrow> (Inr result, w)
      | None \<Rightarrow>
          (case f w of
             (Inl e, w') \<Rightarrow> (Inl e, w')
           | (Inr result, w') \<Rightarrow> (Inr result, w'\<lparr>urls_cache := (urls_cache w')(key \<mapsto> result)\<rparr>)))"

definition get_prism_daily_urls ::
  "'a env \<Rightarrow> year_arg \<Rightarrow> filesystem \<Rightarrow> string \<Rightarrow> string \<Rightarrow> string \<Rightarrow> string \<Rightarrow> string list m" where
  "get_prism_daily_urls env year fs variable stability scale version =
     cached (year, fs, variable, stability, scale, version)
       (fs_glob env fs (target_file_glob year variable stability scale version))"


subsection \<open>\<^verbatim>\<open>preprocess_bil_dataarray\<close>\<close>

definition preprocess_bil_dataarray ::
  "'a env \<Rightarrow> 'a dataarray \<Rightarrow> real \<Rightarrow> real \<Rightarrow> real \<Rightarrow> real \<Rightarrow> string option \<Rightarrow> error + 'a dataarray" where
  "preprocess_bil_dataarray env da minlat minlon maxlat maxlon project_epsg =
     sum_bind (case project_epsg of
                 None \<Rightarrow> Inr da
               | Some epsg \<Rightarrow> rio_reproject env (''EPSG:'' @ epsg) da) (\<lambda>da.
     sum_bind (rio_clip_box env minlon minlat maxlon maxlat da) (\<lambda>da.
     sum_bind (xr_drop env ''spatial_ref'' da) (\<lambda>da.
     sum_bind (xr_squeeze env da) (\<lambda>da.
     sum_bind (xr_rename env [(''x'', ''lon''), (''y'', ''lat'')] da) (\<lambda>da.
     sum_bind (case attrs da ''source_url'' of
                 None \<Rightarrow> Inl KeyError
               | Some s \<Rightarrow> Inr (Path s)) (\<lambda>source_url.
     sum_bind (xr_expand_dims env ''time'' da) (\<lambda>da.
     sum_bind (datetime_from_prism_flname source_url) (\<lambda>t.
     xr_assign_coords env ''time'' [t] da))))))))"

text \<open>The keyword arguments \<^verbatim>\<open>main\<close> passes on; a missing one takes its default.\<close>

record preprocess_kwargs =
  kw_minlat :: "real option"
  kw_minlon :: "real option"
  kw_maxlat :: "real option"
  kw_maxlon :: "real option"
  kw_project_epsg :: "string option option"

definition no_kwargs :: preprocess_kwargs where
  "no_kwargs = \<lparr>kw_minlat = None, kw_minlon = None, kw_maxlat = None, kw_maxlon = None,
                 kw_project_epsg = None\<rparr>"

definition preprocess_call :: "'a env \<Rightarrow> 'a dataarray \<Rightarrow> preprocess_kwargs \<Rightarrow> error + 'a dataarray" where
  "preprocess_call env da kw =
     preprocess_bil_dataarray env da
       (case kw_minlat kw of None \<Rightarrow> 32 | Some x \<Rightarrow> x)
       (case kw_minlon kw of None \<Rightarrow> - 125 | Some x \<Rightarrow> x)
       (case kw_maxlat kw of None \<Rightarrow> 43 | Some x \<Rightarrow> x)
       (case kw_maxlon kw of None \<Rightarrow> - 114 | Some x \<Rightarrow> x)
       (case kw_project_epsg kw of None \<Rightarrow> Some ''4326'' | Some x \<Rightarrow> x)"

subsection \<open>\<^verbatim>\<open>main\<close>\<close>

definition open_rasterio :: "'a env \<Rightarrow> path \<Rightarrow> 'a dataarray m" where
  "open_rasterio env p w = (rasterio_open env p (files w), emit (OpenRasterio p) w)"

definition to_netcdf :: "'a env \<Rightarrow> 'a dataarray \<Rightarrow> path \<Rightarrow> unit m" where
  "to_netcdf env da p w =
     (case netcdf_bytes env da of
        Inl e \<Rightarrow> (Inl e, w)
      | Inr data \<Rightarrow> (Inr (), emit (ToNetcdf p) (w\<lparr>files := (files w)(p \<mapsto> data)\<rparr>)))"

text \<open>
  \<^verbatim>\<open>xr.open_mfdataset\<close> returns a lazy dataset: it refers to the files and holds none of
  their data, so the model keeps the paths. \<^verbatim>\<open>ds.to_zarr(outpath)\<close> computes at once: it
  reads every file as it is at that moment and returns when the store is written.
\<close>

definition open_mfdataset :: "'a env \<Rightarrow> path list \<Rightarrow> path list m" where
  "open_mfdataset env paths w =
     (case mfdataset_error env (map (files w) paths) of
        Some e \<Rightarrow> (Inl e, emit (OpenMfdataset paths) w)
      | None \<Rightarrow> (Inr paths, emit (OpenMfdataset paths) w))"

definition to_zarr :: "'a env \<Rightarrow> path list \<Rightarrow> string \<Rightarrow> unit m" where
  "to_zarr env ds store w =
     (let contents = map (files w) ds
      in case zarr_error env contents store of
           Some e \<Rightarrow> (Inl e, emit (ToZarr store) w)
         | None \<Rightarrow>
             (Inr (), emit (ToZarr store) (w\<lparr>zarr_stores := (zarr_stores w)(store \<mapsto> contents)\<rparr>)))"

text \<open>The body of the \<^verbatim>\<open>with unpacked_prismzip_bil(...)\<close> block, for one URL.\<close>

definition process_day ::
  "'a env \<Rightarrow> string \<Rightarrow> preprocess_kwargs \<Rightarrow> path \<Rightarrow> string \<Rightarrow> path \<Rightarrow> path m" where
  "process_day env variable kwargs tmpdir url bil_path =
     andthen (open_rasterio env bil_path) (\<lambda>da.
     andthen (lift (preprocess_call env
                (da\<lparr>da_name := Some variable, attrs := (attrs da)(''source_url'' \<mapsto> url)\<rparr>)
                kwargs)) (\<lambda>da.
     andthen (lift (with_suffix (joinpath tmpdir (path_name bil_path)) ''.nc'')) (\<lambda>daily_outpath.
     andthen (to_netcdf env da daily_outpath) (\<lambda>_.
     ret daily_outpath))))"

fun daily_loop ::
  "'a env \<Rightarrow> filesystem \<Rightarrow> string \<Rightarrow> preprocess_kwargs \<Rightarrow> path \<Rightarrow> string list \<Rightarrow> path list
     \<Rightarrow> path list m" where
  "daily_loop env fs variable kwargs tmpdir [] daily_paths = ret daily_paths"
| "daily_loop env fs variable kwargs tmpdir (url # urls) daily_paths =
     andthen (unpacked_prismzip_bil env url fs (process_day env variable kwargs tmpdir url))
       (\<lambda>daily_outpath.
          daily_loop env fs variable kwargs tmpdir urls (daily_paths @ [daily_outpath]))"

fun all_urls ::
  "'a env \<Rightarrow> filesystem \<Rightarrow> string \<Rightarrow> string \<Rightarrow> string \<Rightarrow> string \<Rightarrow> int list \<Rightarrow> string list m" where
  "all_urls env fs variable stability scale version [] = ret []"
| "all_urls env fs variable stability scale version (yr # years) =
     andthen (get_prism_daily_urls env (YearInt yr) fs variable stability scale version) (\<lambda>urls.
     andthen (all_urls env fs variable stability scale version years) (\<lambda>more_urls.
     ret (urls @ more_urls)))"

definition fsspec_filesystem :: "string \<Rightarrow> string \<Rightarrow> nat \<Rightarrow> filesystem" where
  "fsspec_filesystem protocol host timeout =
     \<lparr>fs_protocol = protocol, fs_host = host, fs_timeout = timeout\<rparr>"

definition main ::
  "'a env \<Rightarrow> int list \<Rightarrow> string \<Rightarrow> string \<Rightarrow> string \<Rightarrow> string \<Rightarrow> string \<Rightarrow> string \<Rightarrow> string
     \<Rightarrow> preprocess_kwargs option \<Rightarrow> unit m" where
  "main env years variable outpath version scale stability host protocol preprocess_kwargs =
     (let fs = fsspec_filesystem protocol host 300;
          kwargs = (case preprocess_kwargs of None \<Rightarrow> no_kwargs | Some kw \<Rightarrow> kw)
      in andthen (all_urls env fs variable stability scale version years) (\<lambda>all_urls.
         TemporaryDirectory (\<lambda>tmpdir.
           andthen (daily_loop env fs variable kwargs tmpdir all_urls []) (\<lambda>daily_paths.
           andthen (open_mfdataset env daily_paths) (\<lambda>ds.
           to_zarr env ds outpath)))))"

subsection \<open>An environment for examples\<close>

text \<open>
  A remote store that answers every listing with the given URLs and serves every
  download at once, a zip reader that finds a header and a raster, and array
  operations that all succeed. The example environment lists one archive.
\<close>

definition store_listing :: "string list \<Rightarrow> unit env" where
  "store_listing urls =
     \<lparr>get_file_result = (\<lambda>n fs rpath. Inr [80, 75]),
      glob_result = (\<lambda>n fs pattern. Inr urls),
      zip_members = (\<lambda>data. Inr [Member ''d.hdr'' [1], Member ''d.bil'' [2, 3]]),
      rasterio_open = (\<lambda>p fls. Inr \<lparr>da_name = None, attrs = Map.empty, grid = ()\<rparr>),
      rio_reproject = (\<lambda>crs da. Inr da),
      rio_clip_box = (\<lambda>minx miny maxx maxy da. Inr da),
      xr_drop = (\<lambda>name da. Inr da),
      xr_squeeze = (\<lambda>da. Inr da),
      xr_rename = (\<lambda>names da. Inr da),
      xr_expand_dims = (\<lambda>dim da. Inr da),
      xr_assign_coords = (\<lambda>dim ts da. Inr da),
      netcdf_bytes = (\<lambda>da. Inr [67, 68, 70]),
      mfdataset_error = (\<lambda>contents. None),
      zarr_error = (\<lambda>contents store. None)\<rparr>"

definition example_env :: "unit env" where
  "example_env = store_listing [''/daily/tmean/2020/PRISM_tmean_stable_4kmD2_20200101_bil.zip'']"

definition example_fs :: filesystem where
  "example_fs = \<lparr>fs_protocol = ''ftp'', fs_host = ''ftp.prism.oregonstate.edu'', fs_timeout = 300\<rparr>"

subsection \<open>Describing what a computation may do\<close>

text \<open>
  An event is plain when it neither creates nor removes a temporary directory nor
  writes the consolidated store. \<open>emits f\<close> says that \<open>f\<close> only appends plain events to
  the trace and leaves the directory counter and the consolidated stores alone.
  A day event, for a run whose own directories are numbered from \<open>c\<close>, is a plain
  event or the creation or removal of such a directory.
\<close>

definition plain :: "event \<Rightarrow> bool" where
  "plain e = (case e of MkDtemp d \<Rightarrow> False | Rmtree d \<Rightarrow> False | ToZarr s \<Rightarrow> False | _ \<Rightarrow> True)"

definition emits :: "'r m \<Rightarrow> bool" where
  "emits f \<longleftrightarrow>
     (\<forall>w. \<exists>evs. trace (snd (f w)) = trace w @ evs \<and> list_all plain evs
        \<and> tmp_count (snd (f w)) = tmp_count w \<and> zarr_stores (snd (f w)) = zarr_stores w)"

definition day_event :: "nat \<Rightarrow> event \<Rightarrow> bool" where
  "day_event c e \<longleftrightarrow>
     plain e \<or> (\<exists>k. c \<le> k \<and> (e = MkDtemp (tmp_path k) \<or> e = Rmtree (tmp_path k)))"

section \<open>Proofs\<close>

subsection \<open>Splitting strings and taking paths apart\<close>

lemma str_split_not_Nil [simp]: "str_split c s \<noteq> []"
  by (induction s) (auto split: list.splits)

lemma str_split_no_sep: "c \<notin> set s \<Longrightarrow> str_split c s = [s]"
  by (induction s) (auto split: list.splits)









subsection \<open>What \<^verbatim>\<open>strptime\<close> accepts\<close>

























subsection \<open>The extraction loop\<close>

lemma str_split_part_no_sep: "x \<in> set (str_split c s) \<Longrightarrow> c \<notin> set x"
proof (induction s arbitrary: x)
  case Nil
  then show ?case by simp
next
  case (Cons a s)
  obtain w ws where ws: "str_split c s = w # ws"
    by (cases "str_split c s") auto
  with Cons show ?case
    by (cases "a = c") auto
qed

lemma Path_component:
  assumes "CHR ''/'' \<notin> set n" and "n \<noteq> []" and "n \<noteq> ''.''"
  shows "Path n = PurePath [] [n]"
proof -
  have "takeWhile (\<lambda>c. c = CHR ''/'') n = []"
    using assms(1,2) by (cases n) auto
  then show ?thesis
    using assms by (simp add: Path_def splitroot_def str_split_no_sep)
qed

lemma path_name_Path_cases:
  "path_name (Path s) = [] \<or>
   (CHR ''/'' \<notin> set (path_name (Path s)) \<and> path_name (Path s) \<noteq> [] \<and> path_name (Path s) \<noteq> ''.'')"
proof (cases "tail (Path s) = []")
  case True
  then show ?thesis by (simp add: path_name_def)
next
  case False
  then have "last (tail (Path s)) \<in> set (tail (Path s))"
    by simp
  then have "last (tail (Path s)) \<in> set (str_split CHR ''/'' s)
      \<and> last (tail (Path s)) \<noteq> [] \<and> last (tail (Path s)) \<noteq> ''.''"
    by (simp add: Path_def)
  with False show ?thesis
    by (auto simp: path_name_def dest: str_split_part_no_sep)
qed

lemma Path_empty: "Path [] = PurePath [] []"
  by (simp add: Path_def splitroot_def)

lemma joinpath_name:
  "joinpath d (path_name (Path s)) =
     PurePath (anchor d)
       (tail d @ (if path_name (Path s) = [] then [] else [path_name (Path s)]))"
  using path_name_Path_cases [of s]
  by (auto simp: joinpath_def Path_component Path_empty)

lemma outpath_of_eq_iff:
  "outpath_of d a = outpath_of d b \<longleftrightarrow>
     path_name (Path (fl_name a)) = path_name (Path (fl_name b))"
  by (auto simp: outpath_of_def joinpath_name split: if_splits)

lemma is_bil_same_name:
  "path_name (Path (fl_name a)) = path_name (Path (fl_name b)) \<Longrightarrow> is_bil a = is_bil b"
  by (simp add: is_bil_def path_suffix_def)

lemma write_all_Nil [simp]: "write_all d [] w = w"
  by (simp add: write_all_def)

lemma write_all_Cons [simp]:
  "write_all d (fl # ofs) w = write_all d ofs (write_bytes (outpath_of d fl) (fl_read fl) w)"
  by (simp add: write_all_def)

lemma write_all_append [simp]:
  "write_all d (xs @ ys) w = write_all d ys (write_all d xs w)"
  by (simp add: write_all_def)

lemma trace_write_all:
  "trace (write_all d ofs w) = trace w @ map (\<lambda>fl. WriteFile (outpath_of d fl) (fl_read fl)) ofs"
  by (induction ofs arbitrary: w) (simp_all add: write_bytes_def emit_def)

lemma files_write_all:
  "files (write_all d ofs w) p =
     (if filter (\<lambda>fl. outpath_of d fl = p) ofs = [] then files w p
      else Some (fl_read (last (filter (\<lambda>fl. outpath_of d fl = p) ofs))))"
  by (induction ofs arbitrary: w) (simp_all add: write_bytes_def emit_def)

lemma write_all_frame:
  "dirs (write_all d ofs w) = dirs w \<and> tmp_count (write_all d ofs w) = tmp_count w
   \<and> get_file_calls (write_all d ofs w) = get_file_calls w
   \<and> glob_calls (write_all d ofs w) = glob_calls w
   \<and> urls_cache (write_all d ofs w) = urls_cache w
   \<and> zarr_stores (write_all d ofs w) = zarr_stores w"
  by (induction ofs arbitrary: w) (simp_all add: write_bytes_def emit_def)

lemma dump_loop_completes:
  assumes "length (filter is_bil ofs) + (if b = None then 0 else 1) \<le> 1"
  shows "dump_loop ofs d b w =
     (Inr (case filter is_bil ofs of [] \<Rightarrow> b | fl # _ \<Rightarrow> Some (outpath_of d fl)),
      write_all d ofs w)"
  using assms
proof (induction ofs arbitrary: b w)
  case Nil
  then show ?case by simp
next
  case (Cons fl ofs)
  show ?case
  proof (cases "is_bil fl")
    case True
    with Cons.prems have b: "b = None" and none: "filter is_bil ofs = []"
      by (auto split: if_splits)
    have "dump_loop ofs d (Some (outpath_of d fl)) (write_bytes (outpath_of d fl) (fl_read fl) w) =
        (Inr (case filter is_bil ofs of [] \<Rightarrow> Some (outpath_of d fl) | fl # _ \<Rightarrow> Some (outpath_of d fl)),
         write_all d ofs (write_bytes (outpath_of d fl) (fl_read fl) w))"
      by (rule Cons.IH) (simp add: none)
    with True b none show ?thesis
      by (simp add: is_bil_def outpath_of_def Let_def)
  next
    case False
    with Cons.prems have "length (filter is_bil ofs) + (if b = None then 0 else 1) \<le> 1"
      by simp
    from Cons.IH [OF this] False show ?thesis
      by (simp add: is_bil_def outpath_of_def Let_def)
  qed
qed

lemma dump_loop_stops:
  assumes "is_bil fl" and "length (filter is_bil xs) + (if b = None then 0 else 1) = 1"
  shows "dump_loop (xs @ fl # ys) d b w = (Inl ZipBilFileError, write_all d (xs @ [fl]) w)"
  using assms(2)
proof (induction xs arbitrary: b w)
  case Nil
  then have "b \<noteq> None" by (auto split: if_splits)
  with assms(1) show ?case
    by (simp add: is_bil_def outpath_of_def Let_def)
next
  case (Cons x xs)
  show ?case
  proof (cases "is_bil x")
    case True
    with Cons.prems have b: "b = None" and none: "filter is_bil xs = []"
      by (auto split: if_splits)
    have "dump_loop (xs @ fl # ys) d (Some (outpath_of d x)) (write_bytes (outpath_of d x) (fl_read x) w)
        = (Inl ZipBilFileError, write_all d (xs @ [fl]) (write_bytes (outpath_of d x) (fl_read x) w))"
      by (rule Cons.IH) (simp add: none)
    with True b show ?thesis
      by (simp add: is_bil_def outpath_of_def Let_def)
  next
    case False
    with Cons.prems have "length (filter is_bil xs) + (if b = None then 0 else 1) = 1"
      by simp
    from Cons.IH [OF this] False show ?thesis
      by (simp add: is_bil_def outpath_of_def Let_def)
  qed
qed

lemma second_match_split:
  assumes "2 \<le> length (filter P xs)"
  shows "\<exists>us m vs. xs = us @ m # vs \<and> P m \<and> length (filter P us) = 1"
proof -
  from assms obtain a b rest where f: "filter P xs = a # b # rest"
    by (cases "filter P xs"; cases "tl (filter P xs)") auto
  then obtain us vs where 1: "xs = us @ a # vs" "\<forall>u\<in>set us. \<not> P u" "P a" "b # rest = filter P vs"
    unfolding filter_eq_Cons_iff by blast
  from 1(4) have "filter P vs = b # rest" by simp
  then obtain us' vs' where 2: "vs = us' @ b # vs'" "\<forall>u\<in>set us'. \<not> P u" "P b"
    unfolding filter_eq_Cons_iff by blast
  have "xs = (us @ a # us') @ b # vs'" using 1 2 by simp
  moreover have "length (filter P (us @ a # us')) = 1" using 1 2 by simp
  ultimately show ?thesis using 2(3) by blast
qed

lemma dump_zippedbil_completes:
  assumes "length (filter is_bil ofs) \<le> 1"
  shows "dump_zippedbil ofs d w =
     ((case filter is_bil ofs of [] \<Rightarrow> Inl ZipBilFileError | fl # _ \<Rightarrow> Inr (outpath_of d fl)),
      write_all d ofs w)"
proof -
  have "dump_loop ofs d None w =
      (Inr (case filter is_bil ofs of [] \<Rightarrow> None | fl # _ \<Rightarrow> Some (outpath_of d fl)), write_all d ofs w)"
    using assms by (intro dump_loop_completes) simp
  then show ?thesis
    by (simp add: dump_zippedbil_def split: list.splits)
qed

lemma dump_zippedbil_stops:
  assumes "is_bil fl" and "length (filter is_bil xs) = 1"
  shows "dump_zippedbil (xs @ fl # ys) d w = (Inl ZipBilFileError, write_all d (xs @ [fl]) w)"
proof -
  have "dump_loop (xs @ fl # ys) d None w = (Inl ZipBilFileError, write_all d (xs @ [fl]) w)"
    using assms by (intro dump_loop_stops) simp_all
  then show ?thesis
    by (simp add: dump_zippedbil_def)
qed

lemma dump_zippedbil_many:
  assumes "2 \<le> length (filter is_bil ofs)"
  shows "fst (dump_zippedbil ofs d w) = Inl ZipBilFileError"
proof -
  from second_match_split [OF assms] obtain us m vs
    where "ofs = us @ m # vs" "is_bil m" "length (filter is_bil us) = 1"
    by blast
  then show ?thesis
    by (simp add: dump_zippedbil_stops)
qed

lemma only_bil:
  assumes "filter is_bil ofs = [fl]" and "m \<in> set ofs" and "outpath_of d m = outpath_of d fl"
  shows "m = fl"
proof -
  have "fl \<in> set (filter is_bil ofs)" using assms(1) by simp
  then have "is_bil fl" by simp
  with assms(3) have "is_bil m"
    using is_bil_same_name [of m fl] by (simp add: outpath_of_eq_iff)
  with assms(2) have "m \<in> set (filter is_bil ofs)" by simp
  with assms(1) show ?thesis by simp
qed

lemma files_write_all_only_bil:
  assumes "filter is_bil ofs = [fl]"
  shows "files (write_all d ofs w) (outpath_of d fl) = Some (fl_read fl)"
proof -
  let ?same = "filter (\<lambda>m. outpath_of d m = outpath_of d fl) ofs"
  have "fl \<in> set (filter is_bil ofs)" using assms by simp
  then have "fl \<in> set ?same" by simp
  then have ne: "?same \<noteq> []" by (metis empty_iff empty_set)
  then have "last ?same \<in> set ?same" by (rule last_in_set)
  then have "last ?same = fl"
    using only_bil [OF assms, of "last ?same" d] by simp
  with ne show ?thesis by (simp add: files_write_all)
qed

lemma files_write_all_distinct:
  assumes "distinct (map (\<lambda>fl. path_name (Path (fl_name fl))) ofs)" and "fl \<in> set ofs"
  shows "files (write_all d ofs w) (outpath_of d fl) = Some (fl_read fl)"
proof -
  let ?same = "filter (\<lambda>m. outpath_of d m = outpath_of d fl) ofs"
  from assms(2) have "fl \<in> set ?same" by simp
  then have ne: "?same \<noteq> []" by (metis empty_iff empty_set)
  then have "last ?same \<in> set ?same" by (rule last_in_set)
  then have "last ?same \<in> set ofs"
    and "path_name (Path (fl_name (last ?same))) = path_name (Path (fl_name fl))"
    by (simp_all add: outpath_of_eq_iff)
  with assms have "last ?same = fl"
    by (meson distinct_map inj_onD)
  with ne show ?thesis by (simp add: files_write_all)
qed

lemma eval_is_bil:
  "is_bil (Member ''a.bil'' x)" "is_bil (Member ''b.bil'' x)" "is_bil (Member ''sub/d.bil'' x)"
  "\<not> is_bil (Member ''d.hdr'' x)" "\<not> is_bil (Member ''c.hdr'' x)"
  "\<not> is_bil (Member ''p/r.txt'' x)" "\<not> is_bil (Member ''q/r.txt'' x)"
  by (simp_all add: is_bil_def path_suffix_def path_name_def Path_def rfind_def)

lemma eval_outpath_of:
  "outpath_of (tmp_path 0) (Member ''a.bil'' x) = PurePath ''/'' [''tmp'', ''tmp'', ''a.bil'']"
  "outpath_of (tmp_path 0) (Member ''b.bil'' x) = PurePath ''/'' [''tmp'', ''tmp'', ''b.bil'']"
  "outpath_of (tmp_path 0) (Member ''sub/d.bil'' x) = PurePath ''/'' [''tmp'', ''tmp'', ''d.bil'']"
  "outpath_of (tmp_path 0) (Member ''d.hdr'' x) = PurePath ''/'' [''tmp'', ''tmp'', ''d.hdr'']"
  "outpath_of (tmp_path 0) (Member ''c.hdr'' x) = PurePath ''/'' [''tmp'', ''tmp'', ''c.hdr'']"
  "outpath_of (tmp_path 0) (Member ''p/r.txt'' x) = PurePath ''/'' [''tmp'', ''tmp'', ''r.txt'']"
  "outpath_of (tmp_path 0) (Member ''q/r.txt'' x) = PurePath ''/'' [''tmp'', ''tmp'', ''r.txt'']"
  by (simp_all add: outpath_of_def joinpath_def path_name_def Path_def tmp_path_def splitroot_def)

lemma eval_tmp_path_0: "anchor (tmp_path 0) = ''/''" "tail (tmp_path 0) = [''tmp'', ''tmp'']"
  by (simp_all add: tmp_path_def)

lemma trace_init_world: "trace init_world = []"
  by (simp add: init_world_def)

lemma files_write_all_last_same:
  assumes "ofs = xs @ fl1 # ys @ fl2 # zs"
    and "path_name (Path (fl_name fl1)) = path_name (Path (fl_name fl2))"
    and "\<forall>z\<in>set zs. path_name (Path (fl_name z)) \<noteq> path_name (Path (fl_name fl2))"
  shows "files (write_all d ofs w) (outpath_of d fl1) = Some (fl_read fl2)"
proof -
  have same: "outpath_of d fl1 = outpath_of d fl2"
    using assms(2) by (simp add: outpath_of_eq_iff)
  have "filter (\<lambda>m. outpath_of d m = outpath_of d fl2) zs = []"
    using assms(3) by (auto simp: filter_empty_conv outpath_of_eq_iff)
  then have "filter (\<lambda>m. outpath_of d m = outpath_of d fl2) ofs =
      filter (\<lambda>m. outpath_of d m = outpath_of d fl2) (xs @ fl1 # ys) @ [fl2]"
    using assms(1) by simp
  then show ?thesis
    by (simp add: files_write_all same)
qed

lemma eval_path_name:
  "path_name (Path ''p/r.txt'') = ''r.txt''" "path_name (Path ''q/r.txt'') = ''r.txt''"
  "path_name (Path ''a.bil'') = ''a.bil''" "path_name (Path ''sub/a.bil'') = ''a.bil''"
  by (simp_all add: path_name_def Path_def)

subsection \<open>The download with retries\<close>

lemma get_file_cases:
  "get_file env fs url lpath w =
     (case get_file_result env (get_file_calls w) fs url of
        Inl e \<Rightarrow> (Inl e, emit (GetFile url lpath) (w\<lparr>get_file_calls := Suc (get_file_calls w)\<rparr>))
      | Inr data \<Rightarrow>
          (Inr (), (emit (GetFile url lpath) (w\<lparr>get_file_calls := Suc (get_file_calls w)\<rparr>))
                     \<lparr>files := (files w)(lpath \<mapsto> data)\<rparr>))"
  by (simp add: get_file_def Let_def emit_def split: sum.splits)

lemma retry_three:
  "retry_call f excs 3 delay backoff w =
     (case f w of
        (Inr x, w1) \<Rightarrow> (Inr (Some x), w1)
      | (Inl e, w1) \<Rightarrow>
          if e \<notin> set excs then (Inl e, w1)
          else (case f (sleep delay w1) of
                  (Inr x, w2) \<Rightarrow> (Inr (Some x), w2)
                | (Inl e, w2) \<Rightarrow>
                    if e \<notin> set excs then (Inl e, w2)
                    else (case f (sleep (delay * backoff) w2) of
                            (Inr x, w3) \<Rightarrow> (Inr (Some x), w3)
                          | (Inl e, w3) \<Rightarrow> (Inl e, w3))))"
  by (simp add: retry_call_def eval_nat_numeral split: prod.splits sum.splits)

lemma unpacked_unfold:
  "unpacked_prismzip_bil env url fs body w =
     (let d = tmp_path (tmp_count w); lpath = joinpath d (path_name (Path url)) in
      apsnd (rmtree d)
        (andthen (retry_call (get_file env fs url lpath) [TimeoutError] 3 30 2)
           (\<lambda>_. unzip_then env lpath d body)
           (after_attempts w d 0 [])))"
  by (simp add: unpacked_prismzip_bil_def TemporaryDirectory_def mkdtemp_def Let_def
      after_attempts_def unzip_then_def emit_def apsnd_def map_prod_def split: prod.splits)

subsection \<open>Runs of the unpacker on the example environment\<close>

lemmas path_eval =
  is_bil_def outpath_of_def path_suffix_def path_stem_def path_name_def Path_def rfind_def
  joinpath_def splitroot_def tmp_path_def with_suffix_def

lemma eval_under_tmp0:
  "is_under (tmp_path 0) (PurePath ''/'' [''tmp'', ''tmp'', n])"
  "is_under (tmp_path 0) (tmp_path 0)"
  by (simp_all add: is_under_def tmp_path_def)

lemma eval_unpack_names:
  "path_name (Path ''/daily/tmean/2020/PRISM_tmean_stable_4kmD2_20200101_bil.zip'')
     = ''PRISM_tmean_stable_4kmD2_20200101_bil.zip''"
  "joinpath (tmp_path 0) ''PRISM_tmean_stable_4kmD2_20200101_bil.zip''
     = PurePath ''/'' [''tmp'', ''tmp'', ''PRISM_tmean_stable_4kmD2_20200101_bil.zip'']"
  by (simp_all add: path_name_def Path_def joinpath_def tmp_path_def splitroot_def)

lemma eval_unpack_ok:
  "fst (unpacked_prismzip_bil example_env
          ''/daily/tmean/2020/PRISM_tmean_stable_4kmD2_20200101_bil.zip'' example_fs ret init_world)
     = Inr (PurePath ''/'' [''tmp'', ''tmp'', ''d.bil''])"
  by (simp add: unpacked_prismzip_bil_def TemporaryDirectory_def mkdtemp_def Let_def
      eval_unpack_names retry_three get_file_cases andthen_def emit_def init_world_def
      example_env_def store_listing_def open_files_zip_def dump_zippedbil_completes ret_def path_eval
      split: prod.splits)

lemma init_world_fields:
  "files init_world = Map.empty" "dirs init_world = {}" "tmp_count init_world = 0"
  "get_file_calls init_world = 0" "glob_calls init_world = 0" "urls_cache init_world = Map.empty"
  "zarr_stores init_world = Map.empty"
  by (simp_all add: init_world_def)

lemma eval_unpack_no_bil:
  "fst (unpacked_prismzip_bil (example_env\<lparr>zip_members := (\<lambda>data. Inr [Member ''d.hdr'' [1]])\<rparr>)
          ''/daily/tmean/2020/PRISM_tmean_stable_4kmD2_20200101_bil.zip'' example_fs ret init_world)
     = Inl ZipBilFileError"
  by (simp add: unpacked_prismzip_bil_def TemporaryDirectory_def mkdtemp_def Let_def
      eval_unpack_names retry_three get_file_cases andthen_def emit_def init_world_def
      example_env_def store_listing_def open_files_zip_def dump_zippedbil_completes ret_def path_eval
      split: prod.splits)

lemma eval_unpack_timeout:
  "fst (unpacked_prismzip_bil (example_env\<lparr>get_file_result := (\<lambda>n fs rpath. Inl TimeoutError)\<rparr>)
          ''/daily/tmean/2020/PRISM_tmean_stable_4kmD2_20200101_bil.zip'' example_fs ret init_world)
     = Inl TimeoutError"
  by (simp add: unpacked_prismzip_bil_def TemporaryDirectory_def mkdtemp_def Let_def
      eval_unpack_names retry_three get_file_cases andthen_def emit_def init_world_def
      example_env_def store_listing_def sleep_def split: prod.splits)

lemma eval_unpack_body_raises:
  "fst (unpacked_prismzip_bil example_env
          ''/daily/tmean/2020/PRISM_tmean_stable_4kmD2_20200101_bil.zip'' example_fs
          (\<lambda>bil_path. lift (Inl ValueError)) init_world)
     = (Inl ValueError :: error + unit)"
  by (simp add: unpacked_prismzip_bil_def TemporaryDirectory_def mkdtemp_def Let_def
      eval_unpack_names retry_three get_file_cases andthen_def emit_def init_world_def
      example_env_def store_listing_def open_files_zip_def dump_zippedbil_completes lift_def path_eval
      split: prod.splits)

lemma eval_unzip_example:
  "files w (PurePath ''/'' [''tmp'', ''tmp'', ''d.zip'']) = Some data \<Longrightarrow>
   zip_members env data = Inr [Member ''d.hdr'' [1], Member ''d.bil'' [2, 3]] \<Longrightarrow>
   unzip_then env (PurePath ''/'' [''tmp'', ''tmp'', ''d.zip'']) (tmp_path 0) ret w =
     (Inr (PurePath ''/'' [''tmp'', ''tmp'', ''d.bil'']),
      write_all (tmp_path 0) [Member ''d.hdr'' [1], Member ''d.bil'' [2, 3]] w)"
  by (simp add: unzip_then_def andthen_def open_files_zip_def dump_zippedbil_completes ret_def
      path_eval split: prod.splits)

lemma eval_zip_paths:
  "joinpath (tmp_path 0) (path_name (Path ''/daily/d.zip'')) = PurePath ''/'' [''tmp'', ''tmp'', ''d.zip'']"
  by (simp add: path_eval)

subsection \<open>The memo table\<close>


lemma get_prism_daily_urls_miss:
  assumes "urls_cache w (year, fs, variable, stability, scale, version) = None"
  shows "get_prism_daily_urls env year fs variable stability scale version w =
     (case glob_result env (glob_calls w) fs (target_file_glob year variable stability scale version) of
        Inl e \<Rightarrow> (Inl e, emit (Glob (target_file_glob year variable stability scale version))
                           (w\<lparr>glob_calls := Suc (glob_calls w)\<rparr>))
      | Inr urls \<Rightarrow>
          (Inr urls, (emit (Glob (target_file_glob year variable stability scale version))
                           (w\<lparr>glob_calls := Suc (glob_calls w)\<rparr>))
                       \<lparr>urls_cache := (urls_cache w)((year, fs, variable, stability, scale, version) \<mapsto> urls)\<rparr>))"
  using assms
  by (simp add: get_prism_daily_urls_def cached_def fs_glob_def emit_def split: sum.splits)





lemma eval_target_file_glob:
  "target_file_glob (YearInt 2020) ''tmean'' ''stable'' ''4km'' ''D2''
     = ''/daily/tmean/2020/PRISM_tmean_stable_4kmD2_2020*_bil.zip''"
  by (simp add: target_file_glob_def format_year_def str_int_def str_nat.simps)

subsection \<open>The effects of the steps of a run\<close>

lemma plain_simps [simp]:
  "plain (Glob pattern)" "plain (GetFile url p)" "plain (Sleep n)" "plain (WriteFile p data)"
  "plain (OpenRasterio p)" "plain (ToNetcdf p)" "plain (OpenMfdataset ps)"
  "\<not> plain (MkDtemp d)" "\<not> plain (Rmtree d)" "\<not> plain (ToZarr s)"
  by (simp_all add: plain_def)

lemma emitsD:
  assumes "emits f" and "f w = (r, w')"
  obtains evs where "trace w' = trace w @ evs" and "list_all plain evs"
    and "tmp_count w' = tmp_count w" and "zarr_stores w' = zarr_stores w"
proof -
  from assms(1) obtain evs where "trace (snd (f w)) = trace w @ evs \<and> list_all plain evs
        \<and> tmp_count (snd (f w)) = tmp_count w \<and> zarr_stores (snd (f w)) = zarr_stores w"
    unfolding emits_def by blast
  with assms(2) that show thesis by simp
qed

lemma emits_ret [simp]: "emits (ret x)"
  by (simp add: emits_def ret_def)

lemma emits_lift [simp]: "emits (lift r)"
  by (simp add: emits_def lift_def)

lemma emits_andthen:
  assumes "emits f" and "\<And>x. emits (g x)"
  shows "emits (andthen f g)"
  unfolding emits_def
proof
  fix w
  obtain r w1 where f: "f w = (r, w1)" by (cases "f w") auto
  from emitsD [OF assms(1) f] obtain evs1 where 1: "trace w1 = trace w @ evs1" "list_all plain evs1"
    "tmp_count w1 = tmp_count w" "zarr_stores w1 = zarr_stores w"
    by blast
  show "\<exists>evs. trace (snd (andthen f g w)) = trace w @ evs \<and> list_all plain evs
        \<and> tmp_count (snd (andthen f g w)) = tmp_count w
        \<and> zarr_stores (snd (andthen f g w)) = zarr_stores w"
  proof (cases r)
    case (Inl e)
    with f 1 show ?thesis by (simp add: andthen_def)
  next
    case (Inr x)
    obtain r2 w2 where g: "g x w1 = (r2, w2)" by (cases "g x w1") auto
    from emitsD [OF assms(2) g] obtain evs2 where 2: "trace w2 = trace w1 @ evs2" "list_all plain evs2"
      "tmp_count w2 = tmp_count w1" "zarr_stores w2 = zarr_stores w1"
      by blast
    from f g Inr 1 2 show ?thesis by (simp add: andthen_def)
  qed
qed

lemma emits_get_file: "emits (get_file env fs url lpath)"
  by (auto simp: emits_def get_file_cases emit_def split: sum.splits)

lemma emits_retry_internal:
  assumes "emits f"
  shows "emits (retry_internal f excs tries delay backoff)"
  unfolding emits_def
proof
  fix w
  show "\<exists>evs. trace (snd (retry_internal f excs tries delay backoff w)) = trace w @ evs
      \<and> list_all plain evs
      \<and> tmp_count (snd (retry_internal f excs tries delay backoff w)) = tmp_count w
      \<and> zarr_stores (snd (retry_internal f excs tries delay backoff w)) = zarr_stores w"
  proof (induction tries arbitrary: w delay)
    case 0
    show ?case by simp
  next
    case (Suc tries)
    obtain r w1 where f: "f w = (r, w1)" by (cases "f w") auto
    from emitsD [OF assms f] obtain evs1 where 1: "trace w1 = trace w @ evs1" "list_all plain evs1"
      "tmp_count w1 = tmp_count w" "zarr_stores w1 = zarr_stores w"
      by blast
    show ?case
    proof (cases "\<exists>e. r = Inl e \<and> e \<in> set excs \<and> tries \<noteq> 0")
      case True
      then obtain e where e: "r = Inl e" "e \<in> set excs" "tries \<noteq> 0" by blast
      from Suc.IH [of "delay * backoff" "sleep delay w1"] obtain evs2 where
        2: "trace (snd (retry_internal f excs tries (delay * backoff) backoff (sleep delay w1)))
              = trace (sleep delay w1) @ evs2" "list_all plain evs2"
          "tmp_count (snd (retry_internal f excs tries (delay * backoff) backoff (sleep delay w1)))
              = tmp_count (sleep delay w1)"
          "zarr_stores (snd (retry_internal f excs tries (delay * backoff) backoff (sleep delay w1)))
              = zarr_stores (sleep delay w1)"
        by blast
      have "trace (snd (retry_internal f excs (Suc tries) delay backoff w))
          = trace w @ (evs1 @ Sleep delay # evs2)"
        using f e 1 2 by (simp add: sleep_def emit_def)
      moreover have "list_all plain (evs1 @ Sleep delay # evs2)"
        using 1 2 by simp
      moreover have "tmp_count (snd (retry_internal f excs (Suc tries) delay backoff w)) = tmp_count w"
        and "zarr_stores (snd (retry_internal f excs (Suc tries) delay backoff w)) = zarr_stores w"
        using f e 1 2 by (simp_all add: sleep_def emit_def)
      ultimately show ?thesis by blast
    next
      case False
      then have "snd (retry_internal f excs (Suc tries) delay backoff w) = w1"
        using f by (cases r) auto
      with 1 show ?thesis by simp
    qed
  qed
qed

lemma emits_retry_call: "emits f \<Longrightarrow> emits (retry_call f excs tries delay backoff)"
  by (simp add: retry_call_def emits_retry_internal)

lemma emits_open_files_zip: "emits (open_files_zip env p)"
  by (auto simp: emits_def open_files_zip_def split: option.splits)

lemma write_bytes_fields:
  "trace (write_bytes p data w) = trace w @ [WriteFile p data]"
  "tmp_count (write_bytes p data w) = tmp_count w"
  "zarr_stores (write_bytes p data w) = zarr_stores w"
  by (simp_all add: write_bytes_def emit_def)

lemma emits_dump_loop: "emits (dump_loop ofs d b)"
  unfolding emits_def
proof
  fix w
  show "\<exists>evs. trace (snd (dump_loop ofs d b w)) = trace w @ evs \<and> list_all plain evs
      \<and> tmp_count (snd (dump_loop ofs d b w)) = tmp_count w
      \<and> zarr_stores (snd (dump_loop ofs d b w)) = zarr_stores w"
  proof (induction ofs arbitrary: b w)
    case Nil
    show ?case by simp
  next
    case (Cons fl ofs)
    let ?w1 = "write_bytes (outpath_of d fl) (fl_read fl) w"
    show ?case
    proof (cases "is_bil fl \<and> b \<noteq> None")
      case True
      then have "snd (dump_loop (fl # ofs) d b w) = ?w1"
        by (simp add: is_bil_def outpath_of_def Let_def)
      then show ?thesis
        by (simp add: write_bytes_fields)
    next
      case False
      have "\<exists>b'. dump_loop (fl # ofs) d b w = dump_loop ofs d b' ?w1"
      proof (cases "is_bil fl")
        case True
        with False have "b = None" by simp
        with True show ?thesis
          by (intro exI [of _ "Some (outpath_of d fl)"]) (simp add: is_bil_def outpath_of_def Let_def)
      next
        case notbil: False
        then show ?thesis
          by (intro exI [of _ b]) (simp add: is_bil_def outpath_of_def Let_def)
      qed
      then obtain b' where "dump_loop (fl # ofs) d b w = dump_loop ofs d b' ?w1"
        by blast
      moreover from Cons.IH [of b' ?w1] obtain evs where
        "trace (snd (dump_loop ofs d b' ?w1)) = trace ?w1 @ evs" "list_all plain evs"
        "tmp_count (snd (dump_loop ofs d b' ?w1)) = tmp_count ?w1"
        "zarr_stores (snd (dump_loop ofs d b' ?w1)) = zarr_stores ?w1"
        by blast
      ultimately show ?thesis
        by (simp add: write_bytes_fields)
    qed
  qed
qed

lemma emits_dump_zippedbil: "emits (dump_zippedbil ofs d)"
proof -
  have "snd (dump_zippedbil ofs d w) = snd (dump_loop ofs d None w)" for w
    by (simp add: dump_zippedbil_def split: prod.splits sum.splits option.splits)
  with emits_dump_loop [of ofs d None] show ?thesis
    by (simp add: emits_def)
qed

lemma emits_open_rasterio: "emits (open_rasterio env p)"
  by (simp add: emits_def open_rasterio_def emit_def)

lemma emits_to_netcdf: "emits (to_netcdf env da p)"
  by (auto simp: emits_def to_netcdf_def emit_def split: sum.splits)

lemma emits_process_day: "emits (process_day env variable kwargs tmpdir url bil_path)"
  unfolding process_day_def
  by (intro emits_andthen emits_open_rasterio emits_lift emits_to_netcdf emits_ret)

lemma emits_fs_glob: "emits (fs_glob env fs pattern)"
  by (simp add: emits_def fs_glob_def emit_def)

lemma emits_cached: "emits f \<Longrightarrow> emits (cached key f)"
  unfolding emits_def
proof
  fix w
  assume a: "\<forall>w. \<exists>evs. trace (snd (f w)) = trace w @ evs \<and> list_all plain evs
        \<and> tmp_count (snd (f w)) = tmp_count w \<and> zarr_stores (snd (f w)) = zarr_stores w"
  then obtain evs where "trace (snd (f w)) = trace w @ evs \<and> list_all plain evs
        \<and> tmp_count (snd (f w)) = tmp_count w \<and> zarr_stores (snd (f w)) = zarr_stores w"
    by blast
  then show "\<exists>evs. trace (snd (cached key f w)) = trace w @ evs \<and> list_all plain evs
        \<and> tmp_count (snd (cached key f w)) = tmp_count w
        \<and> zarr_stores (snd (cached key f w)) = zarr_stores w"
    by (auto simp: cached_def split: option.splits prod.splits sum.splits)
qed

lemma emits_get_prism_daily_urls:
  "emits (get_prism_daily_urls env year fs variable stability scale version)"
  by (simp add: get_prism_daily_urls_def emits_cached emits_fs_glob)

lemma emits_all_urls: "emits (all_urls env fs variable stability scale version years)"
  by (induction years) (auto intro!: emits_andthen emits_get_prism_daily_urls)

lemma emits_open_mfdataset: "emits (open_mfdataset env paths)"
  by (auto simp: emits_def open_mfdataset_def emit_def split: option.splits)

lemma tmp_path_inj [simp]: "tmp_path k = tmp_path c \<longleftrightarrow> k = c"
  by (simp add: tmp_path_def)

lemma day_event_plain: "plain e \<Longrightarrow> day_event c e"
  by (simp add: day_event_def)

lemma day_event_mono: "day_event (Suc c) e \<Longrightarrow> day_event c e"
  by (auto simp: day_event_def intro: Suc_leD)

lemma day_event_not_scratch:
  "day_event (Suc c) e \<Longrightarrow> e \<noteq> Rmtree (tmp_path c) \<and> (\<forall>s. e \<noteq> ToZarr s)"
  by (auto simp: day_event_def)

lemma emits_unpack_body:
  "emits (andthen (retry_call (get_file env fs url zp) [TimeoutError] 3 30 2) (\<lambda>_.
      andthen (open_files_zip env zp) (\<lambda>zipped_files.
      andthen (dump_zippedbil zipped_files d) (\<lambda>target_bil_path.
      process_day env variable kwargs tmpdir url target_bil_path))))"
  by (intro emits_andthen emits_retry_call emits_get_file emits_open_files_zip emits_dump_zippedbil
      emits_process_day)

lemma TemporaryDirectory_emits:
  assumes "\<And>d. emits (body d)" and "TemporaryDirectory body w = (r, w')"
  shows "\<exists>evs. trace w' = trace w @ MkDtemp (tmp_path (tmp_count w)) # evs @ [Rmtree (tmp_path (tmp_count w))]
      \<and> list_all plain evs \<and> tmp_count w' = Suc (tmp_count w) \<and> zarr_stores w' = zarr_stores w"
proof -
  let ?d = "tmp_path (tmp_count w)"
  let ?w1 = "emit (MkDtemp ?d) (w\<lparr>dirs := insert ?d (dirs w), tmp_count := Suc (tmp_count w)\<rparr>)"
  obtain r2 w2 where b: "body ?d ?w1 = (r2, w2)" by (cases "body ?d ?w1") auto
  from emitsD [OF assms(1) b] obtain evs where e: "trace w2 = trace ?w1 @ evs" "list_all plain evs"
    "tmp_count w2 = tmp_count ?w1" "zarr_stores w2 = zarr_stores ?w1"
    by blast
  from assms(2) b have "w' = rmtree ?d w2"
    by (simp add: TemporaryDirectory_def mkdtemp_def Let_def)
  with e show ?thesis
    by (simp add: rmtree_def emit_def)
qed

lemma unpacked_day_events:
  assumes "unpacked_prismzip_bil env url fs (process_day env variable kwargs tmpdir url) w = (r, w')"
  shows "\<exists>evs. trace w' = trace w @ evs \<and> (\<forall>e\<in>set evs. day_event (tmp_count w) e)
      \<and> tmp_count w' = Suc (tmp_count w) \<and> zarr_stores w' = zarr_stores w"
proof -
  from assms have "TemporaryDirectory (\<lambda>d.
      andthen (retry_call (get_file env fs url (joinpath d (path_name (Path url)))) [TimeoutError] 3 30 2) (\<lambda>_.
      andthen (open_files_zip env (joinpath d (path_name (Path url)))) (\<lambda>zipped_files.
      andthen (dump_zippedbil zipped_files d) (\<lambda>target_bil_path.
      process_day env variable kwargs tmpdir url target_bil_path)))) w = (r, w')"
    by (simp add: unpacked_prismzip_bil_def Let_def)
  from TemporaryDirectory_emits [OF emits_unpack_body this]
  obtain evs where e: "trace w' = trace w @ MkDtemp (tmp_path (tmp_count w)) # evs @ [Rmtree (tmp_path (tmp_count w))]"
    "list_all plain evs" "tmp_count w' = Suc (tmp_count w)" "zarr_stores w' = zarr_stores w"
    by blast
  have "\<forall>e\<in>set (MkDtemp (tmp_path (tmp_count w)) # evs @ [Rmtree (tmp_path (tmp_count w))]).
      day_event (tmp_count w) e"
    using e(2) by (auto simp: day_event_def list_all_iff)
  with e show ?thesis by blast
qed

lemma daily_loop_events:
  assumes "daily_loop env fs variable kwargs tmpdir urls acc w = (r, w')"
  shows "\<exists>evs. trace w' = trace w @ evs \<and> (\<forall>e\<in>set evs. day_event (tmp_count w) e)
      \<and> zarr_stores w' = zarr_stores w
      \<and> (\<forall>paths. r = Inr paths \<longrightarrow> length paths = length acc + length urls)"
  using assms
proof (induction urls arbitrary: acc w)
  case Nil
  then show ?case by (auto simp: ret_def)
next
  case (Cons url urls)
  obtain r1 w1 where u: "unpacked_prismzip_bil env url fs (process_day env variable kwargs tmpdir url) w
      = (r1, w1)"
    by (cases "unpacked_prismzip_bil env url fs (process_day env variable kwargs tmpdir url) w") auto
  from unpacked_day_events [OF u] obtain evs1 where 1: "trace w1 = trace w @ evs1"
    "\<forall>e\<in>set evs1. day_event (tmp_count w) e" "tmp_count w1 = Suc (tmp_count w)"
    "zarr_stores w1 = zarr_stores w"
    by blast
  show ?case
  proof (cases r1)
    case (Inl e)
    with Cons.prems u have "r = Inl e" "w' = w1"
      by (simp_all add: andthen_def)
    with 1 show ?thesis by auto
  next
    case (Inr p)
    with Cons.prems u have "daily_loop env fs variable kwargs tmpdir urls (acc @ [p]) w1 = (r, w')"
      by (simp add: andthen_def)
    from Cons.IH [OF this] obtain evs2 where 2: "trace w' = trace w1 @ evs2"
      "\<forall>e\<in>set evs2. day_event (tmp_count w1) e" "zarr_stores w' = zarr_stores w1"
      "\<forall>paths. r = Inr paths \<longrightarrow> length paths = length (acc @ [p]) + length urls"
      by blast
    have "\<forall>e\<in>set (evs1 @ evs2). day_event (tmp_count w) e"
      using 1 2 by (auto intro: day_event_mono)
    moreover have "trace w' = trace w @ (evs1 @ evs2)"
      using 1 2 by simp
    ultimately show ?thesis
      using 1 2 by (intro exI [of _ "evs1 @ evs2"]) auto
  qed
qed

subsection \<open>The shape of a run of the driver\<close>

lemma main_unfold:
  "main env years variable outpath version scale stability host protocol kw w =
     (case all_urls env (fsspec_filesystem protocol host 300) variable stability scale version years w of
        (Inl e, w0) \<Rightarrow> (Inl e, w0)
      | (Inr urls, w0) \<Rightarrow>
          (case mkdtemp w0 of (tmpdir, w1) \<Rightarrow>
             (case daily_loop env (fsspec_filesystem protocol host 300) variable
                     (case kw of None \<Rightarrow> no_kwargs | Some k \<Rightarrow> k) tmpdir urls [] w1 of
                (Inl e, w2) \<Rightarrow> (Inl e, rmtree tmpdir w2)
              | (Inr daily_paths, w2) \<Rightarrow>
                  (case open_mfdataset env daily_paths w2 of
                     (Inl e, w3) \<Rightarrow> (Inl e, rmtree tmpdir w3)
                   | (Inr ds, w3) \<Rightarrow>
                       (case to_zarr env ds outpath w3 of (r, w4) \<Rightarrow> (r, rmtree tmpdir w4))))))"
  by (simp add: main_def Let_def andthen_def TemporaryDirectory_def split: prod.splits sum.splits)

lemma daily_loop_append:
  "daily_loop env fs variable kwargs tmpdir (xs @ ys) acc w =
     (case daily_loop env fs variable kwargs tmpdir xs acc w of
        (Inl e, w') \<Rightarrow> (Inl e, w')
      | (Inr paths, w') \<Rightarrow> daily_loop env fs variable kwargs tmpdir ys paths w')"
  by (induction xs arbitrary: acc w) (simp_all add: ret_def andthen_def split: prod.splits sum.splits)

lemma mkdtemp_fields:
  "mkdtemp w = (d, w1) \<Longrightarrow>
     d = tmp_path (tmp_count w) \<and> trace w1 = trace w @ [MkDtemp d] \<and> tmp_count w1 = Suc (tmp_count w)
     \<and> zarr_stores w1 = zarr_stores w"
  by (auto simp: mkdtemp_def Let_def emit_def)

lemma rmtree_fields:
  "trace (rmtree d w) = trace w @ [Rmtree d]" "zarr_stores (rmtree d w) = zarr_stores w"
  "tmp_count (rmtree d w) = tmp_count w"
  by (simp_all add: rmtree_def emit_def)

lemma to_zarr_fields:
  "to_zarr env ds store w = (r, w') \<Longrightarrow> trace w' = trace w @ [ToZarr store]"
  by (auto simp: to_zarr_def Let_def emit_def split: option.splits)

lemma open_mfdataset_fields:
  "open_mfdataset env ps w = (r, w') \<Longrightarrow>
     trace w' = trace w @ [OpenMfdataset ps] \<and> zarr_stores w' = zarr_stores w"
  by (auto simp: open_mfdataset_def emit_def split: option.splits)

text \<open>The shape of the trace of a run.\<close>

lemma main_shape:
  assumes "main env years variable outpath version scale stability host protocol kw w = (r, w')"
  shows "\<exists>pre mid fin.
      list_all plain pre \<and> (\<forall>e\<in>set mid. day_event (Suc (tmp_count w)) e)
      \<and> ((trace w' = trace w @ pre \<and> r \<noteq> Inr () \<and> zarr_stores w' = zarr_stores w)
         \<or> (trace w' = trace w @ pre @ MkDtemp (tmp_path (tmp_count w)) # mid @ fin
                 @ [Rmtree (tmp_path (tmp_count w))]
             \<and> ((\<exists>ps. fin = [OpenMfdataset ps, ToZarr outpath])
                \<or> ((fin = [] \<or> (\<exists>ps. fin = [OpenMfdataset ps])) \<and> r \<noteq> Inr ()
                    \<and> zarr_stores w' = zarr_stores w))))"
proof -
  let ?fs = "fsspec_filesystem protocol host 300"
  let ?kw = "case kw of None \<Rightarrow> no_kwargs | Some k \<Rightarrow> k"
  let ?d = "tmp_path (tmp_count w)"
  obtain r0 w0 where a: "all_urls env ?fs variable stability scale version years w = (r0, w0)"
    by (cases "all_urls env ?fs variable stability scale version years w") auto
  from emitsD [OF emits_all_urls a] obtain pre where pre: "trace w0 = trace w @ pre" "list_all plain pre"
    "tmp_count w0 = tmp_count w" "zarr_stores w0 = zarr_stores w"
    by blast
  show ?thesis
  proof (cases r0)
    case (Inl e)
    with assms a have "r = Inl e" "w' = w0" by (simp_all add: main_unfold)
    with pre show ?thesis by (intro exI [of _ pre] exI [of _ "[]"]) auto
  next
    case (Inr urls)
    obtain d w1 where m: "mkdtemp w0 = (d, w1)" by (cases "mkdtemp w0") auto
    from mkdtemp_fields [OF m] pre have d: "d = ?d" and w1: "trace w1 = trace w @ pre @ [MkDtemp ?d]"
      "tmp_count w1 = Suc (tmp_count w)" "zarr_stores w1 = zarr_stores w"
      by simp_all
    obtain r2 w2 where l: "daily_loop env ?fs variable ?kw d urls [] w1 = (r2, w2)"
      by (cases "daily_loop env ?fs variable ?kw d urls [] w1") auto
    from daily_loop_events [OF l] w1 obtain mid where mid: "trace w2 = trace w @ pre @ MkDtemp ?d # mid"
      "\<forall>e\<in>set mid. day_event (Suc (tmp_count w)) e" "zarr_stores w2 = zarr_stores w"
      by auto
    show ?thesis
    proof (cases r2)
      case (Inl e)
      with assms a Inr m l have "r = Inl e" "w' = rmtree d w2" by (simp_all add: main_unfold)
      with mid d pre(2) show ?thesis
        by (intro exI [of _ pre] exI [of _ mid] exI [of _ "[]"]) (simp add: rmtree_fields)
    next
      case paths: (Inr daily_paths)
      obtain r3 w3 where o: "open_mfdataset env daily_paths w2 = (r3, w3)"
        by (cases "open_mfdataset env daily_paths w2") auto
      from open_mfdataset_fields [OF o] mid have w3:
        "trace w3 = trace w @ pre @ MkDtemp ?d # mid @ [OpenMfdataset daily_paths]"
        "zarr_stores w3 = zarr_stores w"
        by simp_all
      show ?thesis
      proof (cases r3)
        case (Inl e)
        with assms a Inr m l paths o have "r = Inl e" "w' = rmtree d w3" by (simp_all add: main_unfold)
        with w3 mid(2) d pre(2) show ?thesis
          by (intro exI [of _ pre] exI [of _ mid] exI [of _ "[OpenMfdataset daily_paths]"])
            (simp add: rmtree_fields)
      next
        case ds: (Inr ds)
        obtain r4 w4 where z: "to_zarr env ds outpath w3 = (r4, w4)"
          by (cases "to_zarr env ds outpath w3") auto
        with assms a Inr m l paths o ds have "w' = rmtree d w4" by (simp add: main_unfold)
        with to_zarr_fields [OF z] w3 mid(2) d pre(2) show ?thesis
          by (intro exI [of _ pre] exI [of _ mid] exI [of _ "[OpenMfdataset daily_paths, ToZarr outpath]"])
            (simp add: rmtree_fields)
      qed
    qed
  qed
qed

lemma write_then_cleanup_order:
  assumes "evs = before @ [ToZarr store, Rmtree d]"
    and "\<forall>e\<in>set before. (\<forall>s. e \<noteq> ToZarr s) \<and> e \<noteq> Rmtree d"
    and "i < length evs" and "j < length evs"
    and "evs ! i = ToZarr s" and "evs ! j = Rmtree d"
  shows "i < j"
proof -
  have i: "\<not> i < length before"
  proof
    assume "i < length before"
    then have "evs ! i \<in> set before" using assms(1) by (simp add: nth_append)
    with assms(2,5) show False by auto
  qed
  have j: "\<not> j < length before"
  proof
    assume "j < length before"
    then have "evs ! j \<in> set before" using assms(1) by (simp add: nth_append)
    with assms(2,6) show False by auto
  qed
  have "i = length before"
  proof (rule ccontr)
    assume "i \<noteq> length before"
    with i assms(1,3) have "i = Suc (length before)" by simp
    with assms(1,5) show False by (simp add: nth_append)
  qed
  moreover have "j = Suc (length before)"
  proof (rule ccontr)
    assume "j \<noteq> Suc (length before)"
    with j assms(1,4) have "j = length before" by simp
    with assms(1,6) show False by (simp add: nth_append)
  qed
  ultimately show ?thesis by simp
qed

lemma plain_not_scratch: "plain e \<Longrightarrow> (\<forall>s. e \<noteq> ToZarr s) \<and> e \<noteq> Rmtree d"
  by auto

lemma day_event_not_zarr: "day_event c e \<Longrightarrow> e \<noteq> ToZarr s"
  by (auto simp: day_event_def)

lemma main_enumeration_failed:
  assumes "all_urls env (fsspec_filesystem protocol host 300) variable stability scale version years w
      = (Inl e, w0)"
  shows "main env years variable outpath version scale stability host protocol kw w = (Inl e, w0)
     \<and> zarr_stores w0 = zarr_stores w
     \<and> (\<exists>evs. trace w0 = trace w @ evs \<and> (\<forall>s. ToZarr s \<notin> set evs))"
proof -
  from emitsD [OF emits_all_urls assms] obtain pre where pre: "trace w0 = trace w @ pre"
    "list_all plain pre" "zarr_stores w0 = zarr_stores w"
    by blast
  have "\<forall>s. ToZarr s \<notin> set pre"
    using pre(2) by (auto simp: list_all_iff)
  with pre assms show ?thesis by (simp add: main_unfold)
qed

lemma main_loop_failed:
  assumes "all_urls env (fsspec_filesystem protocol host 300) variable stability scale version years w
      = (Inr urls, w0)"
    and "mkdtemp w0 = (tmpdir, w1)"
    and "daily_loop env (fsspec_filesystem protocol host 300) variable
           (case kw of None \<Rightarrow> no_kwargs | Some k \<Rightarrow> k) tmpdir urls [] w1 = (Inl e, w2)"
  shows "main env years variable outpath version scale stability host protocol kw w
      = (Inl e, rmtree tmpdir w2)
     \<and> zarr_stores (rmtree tmpdir w2) = zarr_stores w
     \<and> (\<exists>evs. trace (rmtree tmpdir w2) = trace w @ evs \<and> (\<forall>s. ToZarr s \<notin> set evs))"
proof -
  from emitsD [OF emits_all_urls assms(1)] obtain pre where pre: "trace w0 = trace w @ pre"
    "list_all plain pre" "zarr_stores w0 = zarr_stores w"
    by blast
  from mkdtemp_fields [OF assms(2)] have w1: "trace w1 = trace w0 @ [MkDtemp tmpdir]"
    "zarr_stores w1 = zarr_stores w0"
    by simp_all
  from daily_loop_events [OF assms(3)] obtain mid where mid: "trace w2 = trace w1 @ mid"
    "\<forall>e\<in>set mid. day_event (tmp_count w1) e" "zarr_stores w2 = zarr_stores w1"
    by blast
  let ?evs = "pre @ MkDtemp tmpdir # mid @ [Rmtree tmpdir]"
  have "trace (rmtree tmpdir w2) = trace w @ ?evs"
    using pre w1 mid by (simp add: rmtree_fields)
  moreover have "\<forall>s. ToZarr s \<notin> set ?evs"
    using pre(2) mid(2) by (auto simp: list_all_iff dest: day_event_not_zarr)
  moreover have "zarr_stores (rmtree tmpdir w2) = zarr_stores w"
    using pre w1 mid by (simp add: rmtree_fields)
  moreover have "main env years variable outpath version scale stability host protocol kw w
      = (Inl e, rmtree tmpdir w2)"
    using assms by (simp add: main_unfold)
  ultimately show ?thesis by blast
qed

subsection \<open>Runs of the driver on the example environment\<close>

lemma eval_date_20200101:
  "datetime_from_prism_flname (Path ''/daily/tmean/2020/PRISM_tmean_stable_4kmD2_20200101_bil.zip'')
     = Inr (Datetime 2020 1 1)"
  by code_simp

lemma example_fetch:
  "retry_call (get_file (store_listing urls) fs url lp) [TimeoutError] 3 30 2 w =
     (Inr (Some ()),
      w\<lparr>get_file_calls := Suc (get_file_calls w), trace := trace w @ [GetFile url lp],
        files := (files w)(lp \<mapsto> [80, 75])\<rparr>)"
  by (simp add: retry_three get_file_cases store_listing_def emit_def)

lemma example_open_zip:
  "files w lp = Some data \<Longrightarrow>
   open_files_zip (store_listing urls) lp w = (Inr [Member ''d.hdr'' [1], Member ''d.bil'' [2, 3]], w)"
  by (simp add: open_files_zip_def store_listing_def)

lemma example_outpaths:
  "outpath_of d (Member ''d.hdr'' x) = PurePath (anchor d) (tail d @ [''d.hdr''])"
  "outpath_of d (Member ''d.bil'' x) = PurePath (anchor d) (tail d @ [''d.bil''])"
  by (simp_all add: outpath_of_def joinpath_def path_name_def Path_def splitroot_def)

lemma example_is_bil:
  "\<not> is_bil (Member ''d.hdr'' x)" "is_bil (Member ''d.bil'' x)"
  by (simp_all add: is_bil_def path_suffix_def path_name_def Path_def rfind_def)

lemma example_dump:
  "fst (dump_zippedbil [Member ''d.hdr'' [1], Member ''d.bil'' [2, 3]] d w)
     = Inr (PurePath (anchor d) (tail d @ [''d.bil'']))"
  by (simp add: dump_zippedbil_completes example_is_bil example_outpaths)

lemma example_preprocess:
  "attrs da ''source_url'' = Some ''/daily/tmean/2020/PRISM_tmean_stable_4kmD2_20200101_bil.zip'' \<Longrightarrow>
   preprocess_call (store_listing urls) da no_kwargs = Inr da"
  by (simp add: preprocess_call_def preprocess_bil_dataarray_def sum_bind_def no_kwargs_def
      store_listing_def eval_date_20200101)

lemma path_name_snoc [simp]: "path_name (PurePath a (xs @ [n])) = n"
  by (simp add: path_name_def)

lemma path_name_third [simp]: "path_name (PurePath a [x, y, n]) = n"
  by (simp add: path_name_def)

lemma example_daily_outpath:
  "with_suffix (joinpath tmpdir ''d.bil'') ''.nc''
     = Inr (PurePath (anchor tmpdir) (tail tmpdir @ [''d.nc'']))"
  by (simp add: with_suffix_def joinpath_def path_name_def path_suffix_def Path_def splitroot_def
      rfind_def)

lemma example_process_day:
  "path_name bil_path = ''d.bil'' \<Longrightarrow>
   fst (process_day (store_listing urls) ''tmean'' no_kwargs tmpdir
          ''/daily/tmean/2020/PRISM_tmean_stable_4kmD2_20200101_bil.zip'' bil_path w)
     = Inr (PurePath (anchor tmpdir) (tail tmpdir @ [''d.nc'']))"
proof -
  have "rasterio_open (store_listing urls) p fls = Inr \<lparr>da_name = None, attrs = Map.empty, grid = ()\<rparr>" for p fls
    by (simp add: store_listing_def)
  moreover have "netcdf_bytes (store_listing urls) da = Inr [67, 68, 70]" for da
    by (simp add: store_listing_def)
  ultimately show "path_name bil_path = ''d.bil'' \<Longrightarrow> ?thesis"
    by (simp add: process_day_def andthen_def open_rasterio_def lift_def example_preprocess
        example_daily_outpath to_netcdf_def ret_def)
qed

lemma fst_TemporaryDirectory:
  "fst (TemporaryDirectory body w) = fst (body (fst (mkdtemp w)) (snd (mkdtemp w)))"
  by (simp add: TemporaryDirectory_def split: prod.splits)

lemma fst_andthen_Inr:
  "f w = (Inr x, w') \<Longrightarrow> fst (andthen f g w) = fst (g x w')"
  by (simp add: andthen_def)

lemma fst_andthen_fst:
  "fst (f w) = Inr x \<Longrightarrow> fst (andthen f g w) = fst (g x (snd (f w)))"
  by (cases "f w") (simp add: andthen_def)

lemma fst_andthen_Inl:
  "fst (f w) = Inl e \<Longrightarrow> fst (andthen f g w) = Inl e"
  by (cases "f w") (simp add: andthen_def)

lemma example_day:
  "fst (unpacked_prismzip_bil (store_listing urls)
          ''/daily/tmean/2020/PRISM_tmean_stable_4kmD2_20200101_bil.zip'' fs
          (process_day (store_listing urls) ''tmean'' no_kwargs tmpdir
             ''/daily/tmean/2020/PRISM_tmean_stable_4kmD2_20200101_bil.zip'') w)
     = Inr (PurePath (anchor tmpdir) (tail tmpdir @ [''d.nc'']))"
  by (simp add: unpacked_prismzip_bil_def fst_TemporaryDirectory Let_def
      fst_andthen_Inr [OF example_fetch] fst_andthen_Inr [OF example_open_zip]
      fst_andthen_fst [OF example_dump] example_process_day)

lemma snd_andthen_Inr:
  "f w = (Inr x, w') \<Longrightarrow> snd (andthen f g w) = snd (g x w')"
  by (simp add: andthen_def)

lemma example_dump_full:
  "dump_zippedbil [Member ''d.hdr'' [1], Member ''d.bil'' [2, 3]] d w
     = (Inr (PurePath (anchor d) (tail d @ [''d.bil''])),
        write_all d [Member ''d.hdr'' [1], Member ''d.bil'' [2, 3]] w)"
  by (simp add: dump_zippedbil_completes example_is_bil example_outpaths del: write_all_Cons)

lemma example_process_day_trace:
  "path_name bil_path = ''d.bil'' \<Longrightarrow>
   trace (snd (process_day (store_listing urls) ''tmean'' no_kwargs tmpdir
          ''/daily/tmean/2020/PRISM_tmean_stable_4kmD2_20200101_bil.zip'' bil_path w))
     = trace w @ [OpenRasterio bil_path,
                  ToNetcdf (PurePath (anchor tmpdir) (tail tmpdir @ [''d.nc'']))]"
proof -
  have "rasterio_open (store_listing urls) p fls = Inr \<lparr>da_name = None, attrs = Map.empty, grid = ()\<rparr>" for p fls
    by (simp add: store_listing_def)
  moreover have "netcdf_bytes (store_listing urls) da = Inr [67, 68, 70]" for da
    by (simp add: store_listing_def)
  ultimately show "path_name bil_path = ''d.bil'' \<Longrightarrow> ?thesis"
    by (simp add: process_day_def andthen_def open_rasterio_def lift_def example_preprocess
        example_daily_outpath to_netcdf_def ret_def emit_def)
qed

lemma snd_TemporaryDirectory:
  "snd (TemporaryDirectory body w) = rmtree (fst (mkdtemp w)) (snd (body (fst (mkdtemp w)) (snd (mkdtemp w))))"
  by (simp add: TemporaryDirectory_def split: prod.splits)

lemma example_zip_name:
  "joinpath d (path_name (Path ''/daily/tmean/2020/PRISM_tmean_stable_4kmD2_20200101_bil.zip''))
     = PurePath (anchor d) (tail d @ [''PRISM_tmean_stable_4kmD2_20200101_bil.zip''])"
  by (simp add: joinpath_def path_name_def Path_def splitroot_def)

lemma example_day_trace:
  "trace (snd (unpacked_prismzip_bil (store_listing urls)
          ''/daily/tmean/2020/PRISM_tmean_stable_4kmD2_20200101_bil.zip'' fs
          (process_day (store_listing urls) ''tmean'' no_kwargs tmpdir
             ''/daily/tmean/2020/PRISM_tmean_stable_4kmD2_20200101_bil.zip'') w))
     = trace w @
       [MkDtemp (tmp_path (tmp_count w)),
        GetFile ''/daily/tmean/2020/PRISM_tmean_stable_4kmD2_20200101_bil.zip''
          (PurePath ''/'' [''tmp'', ''tmp'' @ replicate (tmp_count w) CHR ''x'',
                           ''PRISM_tmean_stable_4kmD2_20200101_bil.zip'']),
        WriteFile (PurePath ''/'' [''tmp'', ''tmp'' @ replicate (tmp_count w) CHR ''x'', ''d.hdr'']) [1],
        WriteFile (PurePath ''/'' [''tmp'', ''tmp'' @ replicate (tmp_count w) CHR ''x'', ''d.bil'']) [2, 3],
        OpenRasterio (PurePath ''/'' [''tmp'', ''tmp'' @ replicate (tmp_count w) CHR ''x'', ''d.bil'']),
        ToNetcdf (PurePath (anchor tmpdir) (tail tmpdir @ [''d.nc''])),
        Rmtree (tmp_path (tmp_count w))]"
  by (simp add: unpacked_prismzip_bil_def snd_TemporaryDirectory Let_def example_zip_name
      snd_andthen_Inr [OF example_fetch] snd_andthen_Inr [OF example_open_zip]
      snd_andthen_Inr [OF example_dump_full] example_process_day_trace
      trace_write_all example_outpaths rmtree_fields mkdtemp_def emit_def tmp_path_def
      del: write_all_Cons write_all_append)

lemma example_all_urls:
  "all_urls example_env (fsspec_filesystem ''ftp'' ''ftp.prism.oregonstate.edu'' 300)
      ''tmean'' ''stable'' ''4km'' ''D2'' [2020] init_world
   = (Inr [''/daily/tmean/2020/PRISM_tmean_stable_4kmD2_20200101_bil.zip''],
      init_world\<lparr>glob_calls := 1,
        urls_cache := [(YearInt 2020, fsspec_filesystem ''ftp'' ''ftp.prism.oregonstate.edu'' 300,
                        ''tmean'', ''stable'', ''4km'', ''D2'')
           \<mapsto> [''/daily/tmean/2020/PRISM_tmean_stable_4kmD2_20200101_bil.zip'']],
        trace := [Glob ''/daily/tmean/2020/PRISM_tmean_stable_4kmD2_2020*_bil.zip'']\<rparr>)"
  by (simp add: andthen_def ret_def get_prism_daily_urls_miss init_world_def emit_def example_env_def store_listing_def
      eval_target_file_glob)

lemma example_main:
  "fst (main example_env [2020] ''tmean'' ''out.zarr'' ''D2'' ''4km'' ''stable''
          ''ftp.prism.oregonstate.edu'' ''ftp'' None init_world) = Inr ()
   \<and> trace (snd (main example_env [2020] ''tmean'' ''out.zarr'' ''D2'' ''4km'' ''stable''
          ''ftp.prism.oregonstate.edu'' ''ftp'' None init_world))
     = [Glob ''/daily/tmean/2020/PRISM_tmean_stable_4kmD2_2020*_bil.zip'',
        MkDtemp (PurePath ''/'' [''tmp'', ''tmp'']),
        MkDtemp (PurePath ''/'' [''tmp'', ''tmpx'']),
        GetFile ''/daily/tmean/2020/PRISM_tmean_stable_4kmD2_20200101_bil.zip''
          (PurePath ''/'' [''tmp'', ''tmpx'', ''PRISM_tmean_stable_4kmD2_20200101_bil.zip'']),
        WriteFile (PurePath ''/'' [''tmp'', ''tmpx'', ''d.hdr'']) [1],
        WriteFile (PurePath ''/'' [''tmp'', ''tmpx'', ''d.bil'']) [2, 3],
        OpenRasterio (PurePath ''/'' [''tmp'', ''tmpx'', ''d.bil'']),
        ToNetcdf (PurePath ''/'' [''tmp'', ''tmp'', ''d.nc'']),
        Rmtree (PurePath ''/'' [''tmp'', ''tmpx'']),
        OpenMfdataset [PurePath ''/'' [''tmp'', ''tmp'', ''d.nc'']],
        ToZarr ''out.zarr'',
        Rmtree (PurePath ''/'' [''tmp'', ''tmp''])]"
proof -
  let ?url = "''/daily/tmean/2020/PRISM_tmean_stable_4kmD2_20200101_bil.zip''"
  let ?fs = "fsspec_filesystem ''ftp'' ''ftp.prism.oregonstate.edu'' 300"
  let ?d = "PurePath ''/'' [''tmp'', ''tmp'']"
  let ?nc = "PurePath ''/'' [''tmp'', ''tmp'', ''d.nc'']"
  define w0 where "w0 = snd (all_urls example_env ?fs ''tmean'' ''stable'' ''4km'' ''D2'' [2020] init_world)"
  have a: "all_urls example_env ?fs ''tmean'' ''stable'' ''4km'' ''D2'' [2020] init_world = (Inr [?url], w0)"
    and w0: "trace w0 = [Glob ''/daily/tmean/2020/PRISM_tmean_stable_4kmD2_2020*_bil.zip'']"
      "tmp_count w0 = 0"
    unfolding w0_def example_all_urls by (simp_all add: init_world_def)
  define w1 where "w1 = snd (mkdtemp w0)"
  have m: "mkdtemp w0 = (?d, w1)"
    and w1: "trace w1 = trace w0 @ [MkDtemp ?d]" "tmp_count w1 = 1"
    by (simp_all add: w1_def mkdtemp_def Let_def emit_def w0 tmp_path_def)
  define w2 where "w2 = snd (unpacked_prismzip_bil example_env ?url ?fs
      (process_day example_env ''tmean'' no_kwargs ?d ?url) w1)"
  have u: "unpacked_prismzip_bil example_env ?url ?fs
      (process_day example_env ''tmean'' no_kwargs ?d ?url) w1 = (Inr ?nc, w2)"
    using example_day [of "[?url]" ?fs ?d w1] by (simp add: w2_def prod_eq_iff example_env_def)
  have w2: "trace w2 = trace w1 @
       [MkDtemp (PurePath ''/'' [''tmp'', ''tmpx'']),
        GetFile ?url (PurePath ''/'' [''tmp'', ''tmpx'', ''PRISM_tmean_stable_4kmD2_20200101_bil.zip'']),
        WriteFile (PurePath ''/'' [''tmp'', ''tmpx'', ''d.hdr'']) [1],
        WriteFile (PurePath ''/'' [''tmp'', ''tmpx'', ''d.bil'']) [2, 3],
        OpenRasterio (PurePath ''/'' [''tmp'', ''tmpx'', ''d.bil'']),
        ToNetcdf ?nc,
        Rmtree (PurePath ''/'' [''tmp'', ''tmpx''])]"
    using example_day_trace [of "[?url]" ?fs ?d w1] by (simp add: w2_def w1 tmp_path_def example_env_def)
  have l: "daily_loop example_env ?fs ''tmean'' no_kwargs ?d [?url] [] w1 = (Inr [?nc], w2)"
    by (simp add: andthen_def u ret_def)
  have o: "open_mfdataset example_env [?nc] w2 = (Inr [?nc], emit (OpenMfdataset [?nc]) w2)"
    by (simp add: open_mfdataset_def example_env_def store_listing_def)
  have z: "fst (to_zarr example_env [?nc] ''out.zarr'' (emit (OpenMfdataset [?nc]) w2)) = Inr ()"
    "trace (snd (to_zarr example_env [?nc] ''out.zarr'' (emit (OpenMfdataset [?nc]) w2)))
       = trace w2 @ [OpenMfdataset [?nc], ToZarr ''out.zarr'']"
    by (simp_all add: to_zarr_def example_env_def store_listing_def emit_def Let_def)
  have "main example_env [2020] ''tmean'' ''out.zarr'' ''D2'' ''4km'' ''stable''
          ''ftp.prism.oregonstate.edu'' ''ftp'' None init_world
      = (fst (to_zarr example_env [?nc] ''out.zarr'' (emit (OpenMfdataset [?nc]) w2)),
         rmtree ?d (snd (to_zarr example_env [?nc] ''out.zarr'' (emit (OpenMfdataset [?nc]) w2))))"
    by (simp add: main_unfold a m l o split: prod.splits del: all_urls.simps daily_loop.simps)
  then show ?thesis
    by (simp add: z rmtree_fields w2 w1 w0)
qed

lemma all_urls_one_year:
  assumes "glob_result env 0 fs (target_file_glob (YearInt y) variable stability scale version) = Inr urls"
  shows "fst (all_urls env fs variable stability scale version [y] init_world) = Inr urls"
  using assms
  by (simp add: andthen_def ret_def get_prism_daily_urls_miss init_world_def emit_def)

lemma unpack_timeout:
  "fst (unpacked_prismzip_bil (example_env\<lparr>get_file_result := (\<lambda>n fs rpath. Inl TimeoutError)\<rparr>)
          url fs body w) = Inl TimeoutError"
  by (simp add: unpacked_prismzip_bil_def fst_TemporaryDirectory Let_def retry_three get_file_cases
      andthen_def example_env_def store_listing_def)

lemma unpack_no_bil:
  "fst (unpacked_prismzip_bil (example_env\<lparr>zip_members := (\<lambda>data. Inr [Member ''d.hdr'' [1]])\<rparr>)
          url fs body w) = Inl ZipBilFileError"
  by (simp add: unpacked_prismzip_bil_def fst_TemporaryDirectory Let_def retry_three get_file_cases
      andthen_def example_env_def store_listing_def open_files_zip_def dump_zippedbil_completes example_is_bil emit_def)

lemma eval_bad_date:
  "datetime_from_prism_flname (Path ''/daily/tmean/2020/PRISM_tmean_stable_4kmD2_2020aa01_bil.zip'')
     = Inl ValueError"
  by code_simp

lemma unpack_bad_date:
  "fst (unpacked_prismzip_bil (store_listing urls)
          ''/daily/tmean/2020/PRISM_tmean_stable_4kmD2_2020aa01_bil.zip'' fs
          (process_day (store_listing urls) ''tmean'' no_kwargs tmpdir
             ''/daily/tmean/2020/PRISM_tmean_stable_4kmD2_2020aa01_bil.zip'') w)
     = Inl ValueError"
proof -
  have p: "fst (process_day (store_listing urls) ''tmean'' no_kwargs tmpdir
          ''/daily/tmean/2020/PRISM_tmean_stable_4kmD2_2020aa01_bil.zip'' bil_path w) = Inl ValueError"
    for bil_path w
    by (simp add: process_day_def andthen_def open_rasterio_def lift_def preprocess_call_def
        preprocess_bil_dataarray_def sum_bind_def no_kwargs_def store_listing_def eval_bad_date)
  show ?thesis
    by (simp add: unpacked_prismzip_bil_def fst_TemporaryDirectory Let_def
        fst_andthen_Inr [OF example_fetch] fst_andthen_Inr [OF example_open_zip]
        fst_andthen_fst [OF example_dump] p)
qed

subsection \<open>The normaliser's calls\<close>

text \<open>
  What the grid looks like after the normaliser is decided by \<^verbatim>\<open>rioxarray\<close> and \<^verbatim>\<open>xarray\<close>.
  What the function itself decides is which operations it calls: without a target CRS
  the result does not depend on the reprojection at all, with one the reprojection
  comes first, and the time coordinate it assigns is the single date read off the
  source URL.
\<close>

lemma preprocess_without_epsg:
  "preprocess_bil_dataarray env da minlat minlon maxlat maxlon None =
   preprocess_bil_dataarray (env\<lparr>rio_reproject := f\<rparr>) da minlat minlon maxlat maxlon None"
  by (simp add: preprocess_bil_dataarray_def sum_bind_def)

lemma preprocess_with_epsg:
  "preprocess_bil_dataarray env da minlat minlon maxlat maxlon (Some epsg) =
     (case rio_reproject env (''EPSG:'' @ epsg) da of
        Inl e \<Rightarrow> Inl e
      | Inr da' \<Rightarrow> preprocess_bil_dataarray env da' minlat minlon maxlat maxlon None)"
  by (simp add: preprocess_bil_dataarray_def sum_bind_def split: sum.splits)

lemma preprocess_one_time_value:
  assumes "preprocess_bil_dataarray env da minlat minlon maxlat maxlon project_epsg = Inr out"
  shows "\<exists>da' url t. attrs da' ''source_url'' = Some url
     \<and> datetime_from_prism_flname (Path url) = Inr t
     \<and> (\<exists>da''. xr_expand_dims env ''time'' da' = Inr da''
           \<and> xr_assign_coords env ''time'' [t] da'' = Inr out)"
  using assms
  by (auto simp: preprocess_bil_dataarray_def sum_bind_def split: sum.splits option.splits)

section \<open>The claims\<close>

subsection \<open>C6: the date in the file name\<close>




subsection \<open>C1: exactly one raster member\<close>

text \<open>
  Claim C1. \<^const>\<open>dump_zippedbil\<close> returns a path exactly when the archive has one member
  whose suffix is \<open>.bil\<close>; with none, or with more than one, it raises
  \<^const>\<open>ZipBilFileError\<close>. On success the path is the one the raster member was written to,
  and the file there holds that member's bytes.
\<close>

theorem dump_zippedbil_one_bil:
  assumes "dump_zippedbil ofs dumpdir w = (r, w')"
  shows "((\<exists>p. r = Inr p) \<longleftrightarrow> length (filter is_bil ofs) = 1)
     \<and> (length (filter is_bil ofs) \<noteq> 1 \<longrightarrow> r = Inl ZipBilFileError)
     \<and> (\<forall>fl. filter is_bil ofs = [fl] \<longrightarrow>
           r = Inr (outpath_of dumpdir fl) \<and> files w' (outpath_of dumpdir fl) = Some (fl_read fl))"
proof -
  consider (none) "filter is_bil ofs = []"
    | (one) fl where "filter is_bil ofs = [fl]"
    | (many) "2 \<le> length (filter is_bil ofs)"
    by (cases "filter is_bil ofs"; cases "tl (filter is_bil ofs)") auto
  then show ?thesis
  proof cases
    case none
    with assms show ?thesis by (auto simp: dump_zippedbil_completes)
  next
    case (one fl)
    with assms have "r = Inr (outpath_of dumpdir fl)" and "w' = write_all dumpdir ofs w"
      by (simp_all add: dump_zippedbil_completes)
    with one show ?thesis by (simp add: files_write_all_only_bil)
  next
    case many
    with assms dump_zippedbil_many [OF many, of dumpdir w] show ?thesis by auto
  qed
qed

text \<open>An archive with header, raster and projection; one without raster; one with two.\<close>

theorem dump_zippedbil_one_bil_witness:
  "fst (dump_zippedbil
          [Member ''d.hdr'' [1], Member ''d.bil'' [2, 3], Member ''d.prj'' [4]] (tmp_path 0) init_world)
     = Inr (PurePath ''/'' [''tmp'', ''tmp'', ''d.bil''])
   \<and> files (snd (dump_zippedbil
          [Member ''d.hdr'' [1], Member ''d.bil'' [2, 3], Member ''d.prj'' [4]] (tmp_path 0) init_world))
        (PurePath ''/'' [''tmp'', ''tmp'', ''d.bil'']) = Some [2, 3]
   \<and> fst (dump_zippedbil [Member ''d.hdr'' [1]] (tmp_path 0) init_world) = Inl ZipBilFileError
   \<and> fst (dump_zippedbil [Member ''d.bil'' [1], Member ''e.bil'' [2]] (tmp_path 0) init_world)
       = Inl ZipBilFileError"
proof -
  have bil: "is_bil (Member ''d.bil'' [2, 3])" "is_bil (Member ''d.bil'' [1])" "is_bil (Member ''e.bil'' [2])"
    "\<not> is_bil (Member ''d.hdr'' [1])" "\<not> is_bil (Member ''d.prj'' [4])"
    by (simp_all add: is_bil_def path_suffix_def path_name_def Path_def rfind_def)
  have out: "outpath_of (tmp_path 0) (Member ''d.bil'' [2, 3]) = PurePath ''/'' [''tmp'', ''tmp'', ''d.bil'']"
    by (simp add: outpath_of_def joinpath_def path_name_def Path_def tmp_path_def splitroot_def)
  show ?thesis
    using dump_zippedbil_one_bil
      [of "[Member ''d.hdr'' [1], Member ''d.bil'' [2, 3], Member ''d.prj'' [4]]" "tmp_path 0" init_world,
       OF prod.collapse [symmetric]]
      dump_zippedbil_one_bil [of "[Member ''d.hdr'' [1]]" "tmp_path 0" init_world, OF prod.collapse [symmetric]]
      dump_zippedbil_one_bil
      [of "[Member ''d.bil'' [1], Member ''e.bil'' [2]]" "tmp_path 0" init_world, OF prod.collapse [symmetric]]
    by (simp add: bil out)
qed

subsection \<open>C9: what the extraction writes\<close>

text \<open>
  Claim C9, as amended. The extraction writes the members in archive order, each
  byte for byte to the dump directory under the last component of its name.
  \<^item> When the archive has at most one \<open>.bil\<close> member, every member is written.
  \<^item> When it has more, the loop raises at the second \<open>.bil\<close> member: the members up to
    and including that one are written and the ones after it are not.
  \<^item> When the loop does not raise early and no two members share a basename, every
    member's file holds the member's bytes afterwards.
  The claim as first stated promised every member for every archive; the counterexample
  below is an archive whose third member is never written.
\<close>

theorem dump_zippedbil_writes_members:
  assumes "dump_zippedbil ofs dumpdir w = (r, w')"
  shows "(length (filter is_bil ofs) \<le> 1 \<longrightarrow>
            trace w' = trace w @ map (\<lambda>fl. WriteFile (outpath_of dumpdir fl) (fl_read fl)) ofs)
     \<and> (\<forall>xs fl ys. ofs = xs @ fl # ys \<and> is_bil fl \<and> length (filter is_bil xs) = 1 \<longrightarrow>
            trace w' = trace w @ map (\<lambda>fl. WriteFile (outpath_of dumpdir fl) (fl_read fl)) (xs @ [fl]))
     \<and> (\<forall>fl\<in>set ofs.
            outpath_of dumpdir fl =
              PurePath (anchor dumpdir)
                (tail dumpdir @ (if path_name (Path (fl_name fl)) = [] then []
                                 else [path_name (Path (fl_name fl))])))
     \<and> (length (filter is_bil ofs) \<le> 1 \<and> distinct (map (\<lambda>fl. path_name (Path (fl_name fl))) ofs) \<longrightarrow>
            (\<forall>fl\<in>set ofs. files w' (outpath_of dumpdir fl) = Some (fl_read fl)))"
proof (intro conjI impI allI ballI)
  assume "length (filter is_bil ofs) \<le> 1"
  with assms have "w' = write_all dumpdir ofs w"
    by (simp add: dump_zippedbil_completes)
  then show "trace w' = trace w @ map (\<lambda>fl. WriteFile (outpath_of dumpdir fl) (fl_read fl)) ofs"
    by (simp add: trace_write_all)
next
  fix xs fl ys
  assume "ofs = xs @ fl # ys \<and> is_bil fl \<and> length (filter is_bil xs) = 1"
  with assms have "w' = write_all dumpdir (xs @ [fl]) w"
    by (simp add: dump_zippedbil_stops)
  then show "trace w' = trace w @ map (\<lambda>fl. WriteFile (outpath_of dumpdir fl) (fl_read fl)) (xs @ [fl])"
    by (simp only: trace_write_all)
next
  fix fl
  show "outpath_of dumpdir fl =
      PurePath (anchor dumpdir)
        (tail dumpdir @ (if path_name (Path (fl_name fl)) = [] then []
                         else [path_name (Path (fl_name fl))]))"
    by (simp only: outpath_of_def joinpath_name)
next
  fix fl
  assume a: "length (filter is_bil ofs) \<le> 1 \<and> distinct (map (\<lambda>fl. path_name (Path (fl_name fl))) ofs)"
    and fl: "fl \<in> set ofs"
  with assms have "w' = write_all dumpdir ofs w"
    by (simp add: dump_zippedbil_completes)
  with a fl show "files w' (outpath_of dumpdir fl) = Some (fl_read fl)"
    by (simp add: files_write_all_distinct)
qed

text \<open>
  An archive with a member in a subdirectory, and one with two rasters followed by a
  header.
\<close>

theorem dump_zippedbil_writes_members_witness:
  "trace (snd (dump_zippedbil [Member ''d.hdr'' [1], Member ''sub/d.bil'' [2, 3]] (tmp_path 0) init_world))
     = [WriteFile (PurePath ''/'' [''tmp'', ''tmp'', ''d.hdr'']) [1],
        WriteFile (PurePath ''/'' [''tmp'', ''tmp'', ''d.bil'']) [2, 3]]
   \<and> files (snd (dump_zippedbil [Member ''d.hdr'' [1], Member ''sub/d.bil'' [2, 3]] (tmp_path 0) init_world))
        (PurePath ''/'' [''tmp'', ''tmp'', ''d.bil'']) = Some [2, 3]
   \<and> trace (snd (dump_zippedbil [Member ''a.bil'' [1], Member ''b.bil'' [2], Member ''c.hdr'' [3]]
                    (tmp_path 0) init_world))
     = [WriteFile (PurePath ''/'' [''tmp'', ''tmp'', ''a.bil'']) [1],
        WriteFile (PurePath ''/'' [''tmp'', ''tmp'', ''b.bil'']) [2]]"
proof -
  have names: "path_name (Path ''d.hdr'') = ''d.hdr''" "path_name (Path ''sub/d.bil'') = ''d.bil''"
    by (simp_all add: path_name_def Path_def)
  have split: "[Member ''a.bil'' [1], Member ''b.bil'' [2], Member ''c.hdr'' [3]]
      = [Member ''a.bil'' [1]] @ Member ''b.bil'' [2] # [Member ''c.hdr'' [3]]"
    by simp
  show ?thesis
    using dump_zippedbil_writes_members
      [of "[Member ''d.hdr'' [1], Member ''sub/d.bil'' [2, 3]]" "tmp_path 0" init_world,
       OF prod.collapse [symmetric]]
      dump_zippedbil_writes_members
      [of "[Member ''a.bil'' [1], Member ''b.bil'' [2], Member ''c.hdr'' [3]]" "tmp_path 0" init_world,
       OF prod.collapse [symmetric], THEN conjunct2, THEN conjunct1, rule_format,
       of "[Member ''a.bil'' [1]]" "Member ''b.bil'' [2]" "[Member ''c.hdr'' [3]]"]
    by (simp add: eval_is_bil eval_outpath_of names eval_tmp_path_0 trace_init_world)
qed

text \<open>
  With two \<open>.bil\<close> members before it, the header \<open>c.hdr\<close> is never written: the loop has
  raised at \<open>b.bil\<close>.
\<close>

theorem dump_zippedbil_member_not_written:
  "files (snd (dump_zippedbil [Member ''a.bil'' [1], Member ''b.bil'' [2], Member ''c.hdr'' [3]]
                 (tmp_path 0) init_world))
     (outpath_of (tmp_path 0) (Member ''c.hdr'' [3])) = None
   \<and> WriteFile (outpath_of (tmp_path 0) (Member ''c.hdr'' [3])) [3]
       \<notin> set (trace (snd (dump_zippedbil
            [Member ''a.bil'' [1], Member ''b.bil'' [2], Member ''c.hdr'' [3]] (tmp_path 0) init_world)))"
proof -
  have "dump_zippedbil ([Member ''a.bil'' [1]] @ Member ''b.bil'' [2] # [Member ''c.hdr'' [3]])
          (tmp_path 0) init_world
      = (Inl ZipBilFileError, write_all (tmp_path 0) ([Member ''a.bil'' [1]] @ [Member ''b.bil'' [2]]) init_world)"
    by (rule dump_zippedbil_stops) (simp_all add: eval_is_bil)
  then show ?thesis
    by (simp add: eval_outpath_of write_bytes_def emit_def init_world_def)
qed

subsection \<open>C10: members with the same basename\<close>

text \<open>
  Claim C10, as amended. Two members whose names end in the same component are
  written to the same path. When the extraction does not raise early (at most one
  \<open>.bil\<close> member) and no later member has that basename, the file holds the later
  member's bytes afterwards. A member that shares the basename of a \<open>.bil\<close> member
  has the suffix \<open>.bil\<close> too, since the suffix is read off the basename: an archive with
  such a pair raises \<^const>\<open>ZipBilFileError\<close> and returns no path.
  The claim as first stated spoke of every archive with such a pair, and of a member
  without the raster suffix sharing the raster's basename; the counterexample below is
  an archive whose pair is never written, and the last part of the theorem shows that
  the second situation does not occur.
\<close>

theorem dump_zippedbil_same_basename:
  assumes "dump_zippedbil ofs dumpdir w = (r, w')"
    and "ofs = xs @ fl1 # ys @ fl2 # zs"
    and "path_name (Path (fl_name fl1)) = path_name (Path (fl_name fl2))"
  shows "outpath_of dumpdir fl1 = outpath_of dumpdir fl2
     \<and> (length (filter is_bil ofs) \<le> 1
          \<and> (\<forall>z\<in>set zs. path_name (Path (fl_name z)) \<noteq> path_name (Path (fl_name fl2)))
        \<longrightarrow> files w' (outpath_of dumpdir fl1) = Some (fl_read fl2))
     \<and> (is_bil fl1 \<longrightarrow> is_bil fl2 \<and> r = Inl ZipBilFileError)"
proof (intro conjI impI)
  show "outpath_of dumpdir fl1 = outpath_of dumpdir fl2"
    using assms(3) by (simp add: outpath_of_eq_iff)
next
  assume a: "length (filter is_bil ofs) \<le> 1
      \<and> (\<forall>z\<in>set zs. path_name (Path (fl_name z)) \<noteq> path_name (Path (fl_name fl2)))"
  with assms(1) have "w' = write_all dumpdir ofs w"
    by (simp add: dump_zippedbil_completes)
  moreover have "files (write_all dumpdir ofs w) (outpath_of dumpdir fl1) = Some (fl_read fl2)"
    using a by (intro files_write_all_last_same [OF assms(2) assms(3)]) blast
  ultimately show "files w' (outpath_of dumpdir fl1) = Some (fl_read fl2)"
    by (simp only:)
next
  assume "is_bil fl1"
  with assms(3) show b2: "is_bil fl2"
    using is_bil_same_name [of fl1 fl2] by simp
  with \<open>is_bil fl1\<close> assms(2) have "2 \<le> length (filter is_bil ofs)"
    by simp
  from dump_zippedbil_many [OF this, of dumpdir w] assms(1) show "r = Inl ZipBilFileError"
    by simp
qed

text \<open>
  Two text files \<open>p/r.txt\<close> and \<open>q/r.txt\<close> around a raster, and a raster followed by a
  member of the same basename in a subdirectory.
\<close>

theorem dump_zippedbil_same_basename_witness:
  "files (snd (dump_zippedbil [Member ''p/r.txt'' [1], Member ''a.bil'' [9], Member ''q/r.txt'' [2]]
                 (tmp_path 0) init_world))
     (PurePath ''/'' [''tmp'', ''tmp'', ''r.txt'']) = Some [2]
   \<and> is_bil (Member ''sub/a.bil'' [2])
   \<and> fst (dump_zippedbil [Member ''a.bil'' [1], Member ''sub/a.bil'' [2]] (tmp_path 0) init_world)
       = Inl ZipBilFileError"
  using dump_zippedbil_same_basename
    [of "[Member ''p/r.txt'' [1], Member ''a.bil'' [9], Member ''q/r.txt'' [2]]" "tmp_path 0" init_world
        _ _ "[]" "Member ''p/r.txt'' [1]" "[Member ''a.bil'' [9]]" "Member ''q/r.txt'' [2]" "[]",
     OF prod.collapse [symmetric]]
    dump_zippedbil_same_basename
    [of "[Member ''a.bil'' [1], Member ''sub/a.bil'' [2]]" "tmp_path 0" init_world
        _ _ "[]" "Member ''a.bil'' [1]" "[]" "Member ''sub/a.bil'' [2]" "[]",
     OF prod.collapse [symmetric]]
  by (simp add: eval_is_bil eval_outpath_of eval_path_name)

text \<open>
  The loop raises at \<open>b.bil\<close>, so neither \<open>p/r.txt\<close> nor \<open>q/r.txt\<close> is written, although
  both flatten to \<open>r.txt\<close>.
\<close>

theorem dump_zippedbil_same_basename_not_written:
  "path_name (Path ''p/r.txt'') = path_name (Path ''q/r.txt'')
   \<and> files (snd (dump_zippedbil
        [Member ''a.bil'' [1], Member ''b.bil'' [2], Member ''p/r.txt'' [3], Member ''q/r.txt'' [4]]
        (tmp_path 0) init_world))
       (outpath_of (tmp_path 0) (Member ''q/r.txt'' [4])) = None"
proof -
  have "dump_zippedbil
      ([Member ''a.bil'' [1]] @ Member ''b.bil'' [2] # [Member ''p/r.txt'' [3], Member ''q/r.txt'' [4]])
      (tmp_path 0) init_world
      = (Inl ZipBilFileError, write_all (tmp_path 0) ([Member ''a.bil'' [1]] @ [Member ''b.bil'' [2]]) init_world)"
    by (rule dump_zippedbil_stops) (simp_all add: eval_is_bil)
  then show ?thesis
    by (simp add: eval_outpath_of eval_path_name write_bytes_def emit_def init_world_def)
qed

subsection \<open>C3: the retry policy of the download\<close>

text \<open>
  Claim C3. Entering \<^verbatim>\<open>with unpacked_prismzip_bil(url, fs)\<close> in the state \<open>w\<close> creates the
  directory \<open>d\<close> and downloads the archive to \<open>lpath\<close> in it. Write \<open>g\<close> for one call of
  \<^verbatim>\<open>fs.get_file\<close> and \<open>a k\<close> for the answer of the remote store to the call number \<open>k\<close> of
  this download. The six cases below are all the cases there are, so \<^verbatim>\<open>get_file\<close> is
  called at most three times.
  \<^item> The first answer is the file: one call, no sleep, and the block goes on to open the
    archive.
  \<^item> The first answer is an exception other than \<^const>\<open>TimeoutError\<close>: it is raised at once,
    after one call and no sleep, and the directory is removed.
  \<^item> A timeout, then the file: two calls with a sleep of 30 seconds between them, and the
    block goes on.
  \<^item> A timeout, then another exception: that exception is raised after the two calls.
  \<^item> Two timeouts, then the file: three calls, with sleeps of 30 and 60 seconds, and the
    block goes on to open the archive, with the file stored at \<open>lpath\<close>.
  \<^item> Two timeouts, then any exception: it is raised after three calls and the sleeps of 30
    and 60 seconds. This is the only way a \<^const>\<open>TimeoutError\<close> of the download leaves
    the block.
\<close>

theorem fetch_retry_policy:
  fixes body :: "path \<Rightarrow> 'r m"
  assumes "d = tmp_path (tmp_count w)" and "lpath = joinpath d (path_name (Path url))"
    and "g = GetFile url lpath"
    and "a = (\<lambda>k. get_file_result env (get_file_calls w + k) fs url)"
    and "run = unpacked_prismzip_bil env url fs body w"
  shows "(\<forall>data. a 0 = Inr data \<longrightarrow>
           run = apsnd (rmtree d) (unzip_then env lpath d body
                   ((after_attempts w d 1 [g])\<lparr>files := (files w)(lpath \<mapsto> data)\<rparr>)))
     \<and> (\<forall>e. a 0 = Inl e \<and> e \<noteq> TimeoutError \<longrightarrow>
           run = (Inl e, rmtree d (after_attempts w d 1 [g])))
     \<and> (\<forall>data. a 0 = Inl TimeoutError \<and> a 1 = Inr data \<longrightarrow>
           run = apsnd (rmtree d) (unzip_then env lpath d body
                   ((after_attempts w d 2 [g, Sleep 30, g])\<lparr>files := (files w)(lpath \<mapsto> data)\<rparr>)))
     \<and> (\<forall>e. a 0 = Inl TimeoutError \<and> a 1 = Inl e \<and> e \<noteq> TimeoutError \<longrightarrow>
           run = (Inl e, rmtree d (after_attempts w d 2 [g, Sleep 30, g])))
     \<and> (\<forall>data. a 0 = Inl TimeoutError \<and> a 1 = Inl TimeoutError \<and> a 2 = Inr data \<longrightarrow>
           run = apsnd (rmtree d) (unzip_then env lpath d body
                   ((after_attempts w d 3 [g, Sleep 30, g, Sleep 60, g])
                      \<lparr>files := (files w)(lpath \<mapsto> data)\<rparr>)))
     \<and> (\<forall>e. a 0 = Inl TimeoutError \<and> a 1 = Inl TimeoutError \<and> a 2 = Inl e \<longrightarrow>
           run = (Inl e, rmtree d (after_attempts w d 3 [g, Sleep 30, g, Sleep 60, g])))"
proof -
  have three: "get_file_calls w + 3 = Suc (Suc (Suc (get_file_calls w)))"
    by simp
  show ?thesis
    unfolding assms unpacked_unfold Let_def retry_three
    by (auto simp: three get_file_cases sleep_def emit_def andthen_def after_attempts_def
        split: sum.splits)
qed

text \<open>
  Three runs from the initial state: a store that times out twice and then serves the
  file, one that always times out, and one that reports a missing file.
\<close>

theorem fetch_retry_policy_witness:
  "unpacked_prismzip_bil
      (example_env\<lparr>get_file_result :=
         (\<lambda>n fs rpath. if n < 2 then Inl TimeoutError else Inr [80, 75])\<rparr>)
      ''/daily/d.zip'' example_fs ret init_world
    = (Inr (PurePath ''/'' [''tmp'', ''tmp'', ''d.bil'']),
       rmtree (tmp_path 0)
         (write_all (tmp_path 0) [Member ''d.hdr'' [1], Member ''d.bil'' [2, 3]]
           ((after_attempts init_world (tmp_path 0) 3
              [GetFile ''/daily/d.zip'' (PurePath ''/'' [''tmp'', ''tmp'', ''d.zip'']), Sleep 30,
               GetFile ''/daily/d.zip'' (PurePath ''/'' [''tmp'', ''tmp'', ''d.zip'']), Sleep 60,
               GetFile ''/daily/d.zip'' (PurePath ''/'' [''tmp'', ''tmp'', ''d.zip''])])
            \<lparr>files := [PurePath ''/'' [''tmp'', ''tmp'', ''d.zip''] \<mapsto> [80, 75]]\<rparr>)))
   \<and> trace (snd (unpacked_prismzip_bil
      (example_env\<lparr>get_file_result :=
         (\<lambda>n fs rpath. if n < 2 then Inl TimeoutError else Inr [80, 75])\<rparr>)
      ''/daily/d.zip'' example_fs ret init_world))
    = [MkDtemp (tmp_path 0),
       GetFile ''/daily/d.zip'' (PurePath ''/'' [''tmp'', ''tmp'', ''d.zip'']), Sleep 30,
       GetFile ''/daily/d.zip'' (PurePath ''/'' [''tmp'', ''tmp'', ''d.zip'']), Sleep 60,
       GetFile ''/daily/d.zip'' (PurePath ''/'' [''tmp'', ''tmp'', ''d.zip'']),
       WriteFile (PurePath ''/'' [''tmp'', ''tmp'', ''d.hdr'']) [1],
       WriteFile (PurePath ''/'' [''tmp'', ''tmp'', ''d.bil'']) [2, 3],
       Rmtree (tmp_path 0)]
   \<and> unpacked_prismzip_bil
      (example_env\<lparr>get_file_result := (\<lambda>n fs rpath. Inl TimeoutError)\<rparr>)
      ''/daily/d.zip'' example_fs (ret :: path \<Rightarrow> path m) init_world
    = (Inl TimeoutError,
       rmtree (tmp_path 0)
         (after_attempts init_world (tmp_path 0) 3
            [GetFile ''/daily/d.zip'' (PurePath ''/'' [''tmp'', ''tmp'', ''d.zip'']), Sleep 30,
             GetFile ''/daily/d.zip'' (PurePath ''/'' [''tmp'', ''tmp'', ''d.zip'']), Sleep 60,
             GetFile ''/daily/d.zip'' (PurePath ''/'' [''tmp'', ''tmp'', ''d.zip''])]))
   \<and> unpacked_prismzip_bil
      (example_env\<lparr>get_file_result := (\<lambda>n fs rpath. Inl (External ''FileNotFoundError''))\<rparr>)
      ''/daily/d.zip'' example_fs (ret :: path \<Rightarrow> path m) init_world
    = (Inl (External ''FileNotFoundError''),
       rmtree (tmp_path 0)
         (after_attempts init_world (tmp_path 0) 1
            [GetFile ''/daily/d.zip'' (PurePath ''/'' [''tmp'', ''tmp'', ''d.zip''])]))"
proof -
  let ?slow = "example_env\<lparr>get_file_result :=
         (\<lambda>n fs rpath. if n < 2 then Inl TimeoutError else Inr [80, 75])\<rparr>"
  let ?dead = "example_env\<lparr>get_file_result := (\<lambda>n fs rpath. Inl TimeoutError)\<rparr>"
  let ?gone = "example_env\<lparr>get_file_result := (\<lambda>n fs rpath. Inl (External ''FileNotFoundError''))\<rparr>"
  have slow: "unpacked_prismzip_bil ?slow ''/daily/d.zip'' example_fs ret init_world
    = (Inr (PurePath ''/'' [''tmp'', ''tmp'', ''d.bil'']),
       rmtree (tmp_path 0)
         (write_all (tmp_path 0) [Member ''d.hdr'' [1], Member ''d.bil'' [2, 3]]
           ((after_attempts init_world (tmp_path 0) 3
              [GetFile ''/daily/d.zip'' (PurePath ''/'' [''tmp'', ''tmp'', ''d.zip'']), Sleep 30,
               GetFile ''/daily/d.zip'' (PurePath ''/'' [''tmp'', ''tmp'', ''d.zip'']), Sleep 60,
               GetFile ''/daily/d.zip'' (PurePath ''/'' [''tmp'', ''tmp'', ''d.zip''])])
            \<lparr>files := [PurePath ''/'' [''tmp'', ''tmp'', ''d.zip''] \<mapsto> [80, 75]]\<rparr>)))"
    using fetch_retry_policy [OF refl refl refl refl refl,
        of ?slow init_world example_fs "''/daily/d.zip''" ret]
    by (simp add: init_world_fields eval_zip_paths eval_unzip_example example_env_def
        store_listing_def)
  have dead: "unpacked_prismzip_bil ?dead ''/daily/d.zip'' example_fs (ret :: path \<Rightarrow> path m) init_world
    = (Inl TimeoutError,
       rmtree (tmp_path 0)
         (after_attempts init_world (tmp_path 0) 3
            [GetFile ''/daily/d.zip'' (PurePath ''/'' [''tmp'', ''tmp'', ''d.zip'']), Sleep 30,
             GetFile ''/daily/d.zip'' (PurePath ''/'' [''tmp'', ''tmp'', ''d.zip'']), Sleep 60,
             GetFile ''/daily/d.zip'' (PurePath ''/'' [''tmp'', ''tmp'', ''d.zip''])]))"
    using fetch_retry_policy [OF refl refl refl refl refl,
        of ?dead init_world example_fs "''/daily/d.zip''" "ret :: path \<Rightarrow> path m"]
    by (simp add: init_world_fields eval_zip_paths)
  have gone: "unpacked_prismzip_bil ?gone ''/daily/d.zip'' example_fs (ret :: path \<Rightarrow> path m) init_world
    = (Inl (External ''FileNotFoundError''),
       rmtree (tmp_path 0)
         (after_attempts init_world (tmp_path 0) 1
            [GetFile ''/daily/d.zip'' (PurePath ''/'' [''tmp'', ''tmp'', ''d.zip''])]))"
    using fetch_retry_policy [OF refl refl refl refl refl,
        of ?gone init_world example_fs "''/daily/d.zip''" "ret :: path \<Rightarrow> path m"]
    by (simp add: init_world_fields eval_zip_paths)
  show ?thesis
    unfolding slow dead gone
    by (simp add: rmtree_def emit_def write_bytes_def after_attempts_def trace_init_world
        path_eval)
qed

subsection \<open>C4: the extraction directory is removed on every exit\<close>

text \<open>
  Claim C4. Whatever the body of the \<^verbatim>\<open>with unpacked_prismzip_bil(...)\<close> block does and
  however the block is left (the body returns, the body raises, the archive is
  malformed, the download fails), the temporary directory created on entry is gone
  afterwards, with every file in or below it, and its removal is the last effect.
\<close>

theorem unpacked_prismzip_bil_cleans_up:
  assumes "unpacked_prismzip_bil env url fs body w = (r, w')"
  shows "tmp_path (tmp_count w) \<notin> dirs w'
     \<and> (\<forall>p. is_under (tmp_path (tmp_count w)) p \<longrightarrow> files w' p = None)
     \<and> trace w' \<noteq> [] \<and> last (trace w') = Rmtree (tmp_path (tmp_count w))"
  using assms
  by (auto simp: unpacked_prismzip_bil_def TemporaryDirectory_def mkdtemp_def rmtree_def emit_def
      Let_def is_under_def split: prod.splits)

text \<open>
  Four runs from the initial state: a body that returns the raster path, an archive
  without raster, a download that times out three times, and a body that raises.
\<close>

theorem unpacked_prismzip_bil_cleans_up_witness:
  "fst (unpacked_prismzip_bil example_env
          ''/daily/tmean/2020/PRISM_tmean_stable_4kmD2_20200101_bil.zip'' example_fs ret init_world)
     = Inr (PurePath ''/'' [''tmp'', ''tmp'', ''d.bil''])
   \<and> tmp_path 0 \<notin> dirs (snd (unpacked_prismzip_bil example_env
          ''/daily/tmean/2020/PRISM_tmean_stable_4kmD2_20200101_bil.zip'' example_fs ret init_world))
   \<and> files (snd (unpacked_prismzip_bil example_env
          ''/daily/tmean/2020/PRISM_tmean_stable_4kmD2_20200101_bil.zip'' example_fs ret init_world))
        (PurePath ''/'' [''tmp'', ''tmp'', ''d.bil'']) = None
   \<and> fst (unpacked_prismzip_bil (example_env\<lparr>zip_members := (\<lambda>data. Inr [Member ''d.hdr'' [1]])\<rparr>)
          ''/daily/tmean/2020/PRISM_tmean_stable_4kmD2_20200101_bil.zip'' example_fs ret init_world)
     = Inl ZipBilFileError
   \<and> tmp_path 0 \<notin> dirs (snd (unpacked_prismzip_bil
          (example_env\<lparr>zip_members := (\<lambda>data. Inr [Member ''d.hdr'' [1]])\<rparr>)
          ''/daily/tmean/2020/PRISM_tmean_stable_4kmD2_20200101_bil.zip'' example_fs ret init_world))
   \<and> files (snd (unpacked_prismzip_bil
          (example_env\<lparr>zip_members := (\<lambda>data. Inr [Member ''d.hdr'' [1]])\<rparr>)
          ''/daily/tmean/2020/PRISM_tmean_stable_4kmD2_20200101_bil.zip'' example_fs ret init_world))
        (PurePath ''/'' [''tmp'', ''tmp'', ''d.hdr'']) = None
   \<and> fst (unpacked_prismzip_bil (example_env\<lparr>get_file_result := (\<lambda>n fs rpath. Inl TimeoutError)\<rparr>)
          ''/daily/tmean/2020/PRISM_tmean_stable_4kmD2_20200101_bil.zip'' example_fs ret init_world)
     = Inl TimeoutError
   \<and> tmp_path 0 \<notin> dirs (snd (unpacked_prismzip_bil
          (example_env\<lparr>get_file_result := (\<lambda>n fs rpath. Inl TimeoutError)\<rparr>)
          ''/daily/tmean/2020/PRISM_tmean_stable_4kmD2_20200101_bil.zip'' example_fs ret init_world))
   \<and> fst (unpacked_prismzip_bil example_env
          ''/daily/tmean/2020/PRISM_tmean_stable_4kmD2_20200101_bil.zip'' example_fs
          (\<lambda>bil_path. lift (Inl ValueError)) init_world)
     = (Inl ValueError :: error + unit)
   \<and> tmp_path 0 \<notin> dirs (snd (unpacked_prismzip_bil example_env
          ''/daily/tmean/2020/PRISM_tmean_stable_4kmD2_20200101_bil.zip'' example_fs
          (\<lambda>bil_path. lift (Inl ValueError) :: unit m) init_world))
   \<and> files (snd (unpacked_prismzip_bil example_env
          ''/daily/tmean/2020/PRISM_tmean_stable_4kmD2_20200101_bil.zip'' example_fs
          (\<lambda>bil_path. lift (Inl ValueError) :: unit m) init_world))
        (PurePath ''/'' [''tmp'', ''tmp'', ''d.bil'']) = None"
proof -
  let ?url = "''/daily/tmean/2020/PRISM_tmean_stable_4kmD2_20200101_bil.zip''"
  note ok = unpacked_prismzip_bil_cleans_up
      [of example_env ?url example_fs ret init_world, OF prod.collapse [symmetric],
       unfolded init_world_fields]
  note malformed = unpacked_prismzip_bil_cleans_up
      [of "example_env\<lparr>zip_members := (\<lambda>data. Inr [Member ''d.hdr'' [1]])\<rparr>" ?url example_fs ret
          init_world, OF prod.collapse [symmetric], unfolded init_world_fields]
  note exhausted = unpacked_prismzip_bil_cleans_up
      [of "example_env\<lparr>get_file_result := (\<lambda>n fs rpath. Inl TimeoutError)\<rparr>" ?url example_fs ret
          init_world, OF prod.collapse [symmetric], unfolded init_world_fields]
  note raised = unpacked_prismzip_bil_cleans_up
      [of example_env ?url example_fs "\<lambda>bil_path. lift (Inl ValueError) :: unit m" init_world,
       OF prod.collapse [symmetric], unfolded init_world_fields]
  show ?thesis
    using ok malformed exhausted raised eval_under_tmp0(1)
    by (simp add: eval_unpack_ok eval_unpack_no_bil eval_unpack_timeout eval_unpack_body_raises)
qed

subsection \<open>C7: the URL enumerator is memoized\<close>



subsection \<open>C2: the consolidated write precedes the removal of the scratch directory\<close>

text \<open>
  Claim C2. In every run of \<^const>\<open>main\<close>, from any state and with any collaborators, no
  removal of the run's scratch directory comes before a \<^verbatim>\<open>to_zarr\<close> call in the trace.
  When the run returns normally, or calls \<^verbatim>\<open>to_zarr\<close> at all, its last two effects are the
  \<^verbatim>\<open>to_zarr\<close> call on the output path, which returns only when the store is written,
  and then the removal of the scratch directory; nothing before them writes a store or
  removes that directory. The scratch directory is the first temporary directory the
  run creates, \<open>tmp_path (tmp_count w)\<close>.
\<close>

theorem main_write_before_cleanup:
  assumes "main env years variable outpath version scale stability host protocol kw w = (r, w')"
  shows "\<exists>evs. trace w' = trace w @ evs
      \<and> (\<forall>i j s. i < length evs \<and> j < length evs \<and> evs ! i = ToZarr s
             \<and> evs ! j = Rmtree (tmp_path (tmp_count w)) \<longrightarrow> i < j)
      \<and> (r = Inr () \<or> (\<exists>s. ToZarr s \<in> set evs) \<longrightarrow>
           (\<exists>before. evs = before @ [ToZarr outpath, Rmtree (tmp_path (tmp_count w))]
              \<and> (\<forall>e\<in>set before. (\<forall>s. e \<noteq> ToZarr s) \<and> e \<noteq> Rmtree (tmp_path (tmp_count w)))))"
proof -
  let ?d = "tmp_path (tmp_count w)"
  let ?ok = "\<lambda>e. (\<forall>s. e \<noteq> ToZarr s) \<and> e \<noteq> Rmtree ?d"
  from main_shape [OF assms] obtain pre mid fin where
    pre: "list_all plain pre" and mid: "\<forall>e\<in>set mid. day_event (Suc (tmp_count w)) e"
    and shape: "(trace w' = trace w @ pre \<and> r \<noteq> Inr () \<and> zarr_stores w' = zarr_stores w)
         \<or> (trace w' = trace w @ pre @ MkDtemp ?d # mid @ fin @ [Rmtree ?d]
             \<and> ((\<exists>ps. fin = [OpenMfdataset ps, ToZarr outpath])
                \<or> ((fin = [] \<or> (\<exists>ps. fin = [OpenMfdataset ps])) \<and> r \<noteq> Inr ()
                    \<and> zarr_stores w' = zarr_stores w)))"
    by blast
  have okpre: "\<forall>e\<in>set pre. ?ok e"
    using pre by (auto simp: list_all_iff)
  have okmid: "\<forall>e\<in>set mid. ?ok e"
    using mid day_event_not_scratch by blast
  consider (enum) "trace w' = trace w @ pre" "r \<noteq> Inr ()"
    | (written) ps where "trace w' = trace w @ pre @ MkDtemp ?d # mid @ [OpenMfdataset ps, ToZarr outpath]
          @ [Rmtree ?d]"
    | (failed) fin where "trace w' = trace w @ pre @ MkDtemp ?d # mid @ fin @ [Rmtree ?d]"
        "fin = [] \<or> (\<exists>ps. fin = [OpenMfdataset ps])" "r \<noteq> Inr ()"
    using shape by auto
  then show ?thesis
  proof cases
    case enum
    have "\<forall>e\<in>set pre. \<forall>s. e \<noteq> ToZarr s" using okpre by blast
    then have "\<forall>i s. i < length pre \<longrightarrow> pre ! i \<noteq> ToZarr s" by auto
    with enum show ?thesis
      by (intro exI [of _ pre]) (auto simp: in_set_conv_nth)
  next
    case (written ps)
    let ?before = "pre @ MkDtemp ?d # mid @ [OpenMfdataset ps]"
    let ?evs = "?before @ [ToZarr outpath, Rmtree ?d]"
    have ok: "\<forall>e\<in>set ?before. ?ok e"
      using okpre okmid by auto
    have "trace w' = trace w @ ?evs" using written by simp
    moreover have "\<forall>i j s. i < length ?evs \<and> j < length ?evs \<and> ?evs ! i = ToZarr s
             \<and> ?evs ! j = Rmtree ?d \<longrightarrow> i < j"
      using write_then_cleanup_order [OF refl ok] by blast
    ultimately show ?thesis
      using ok by (intro exI [of _ ?evs]) blast
  next
    case (failed fin)
    let ?evs = "pre @ MkDtemp ?d # mid @ fin @ [Rmtree ?d]"
    have nz: "\<forall>e\<in>set ?evs. \<forall>s. e \<noteq> ToZarr s"
      using okpre okmid failed(2) by auto
    then have "\<forall>i s. i < length ?evs \<longrightarrow> ?evs ! i \<noteq> ToZarr s"
      by (metis nth_mem)
    with failed nz show ?thesis
      by (intro exI [of _ ?evs]) (simp, blast)
  qed
qed

text \<open>A run over one year with one archive, from the initial state.\<close>


theorem main_write_before_cleanup_witness:
  "fst (main example_env [2020] ''tmean'' ''out.zarr'' ''D2'' ''4km'' ''stable''
          ''ftp.prism.oregonstate.edu'' ''ftp'' None init_world) = Inr ()
   \<and> (\<exists>before. trace (snd (main example_env [2020] ''tmean'' ''out.zarr'' ''D2'' ''4km'' ''stable''
          ''ftp.prism.oregonstate.edu'' ''ftp'' None init_world))
        = before @ [ToZarr ''out.zarr'', Rmtree (tmp_path 0)])"
proof -
  let ?run = "main example_env [2020] ''tmean'' ''out.zarr'' ''D2'' ''4km'' ''stable''
          ''ftp.prism.oregonstate.edu'' ''ftp'' None init_world"
  have ok: "fst ?run = Inr ()"
    using example_main by blast
  from main_write_before_cleanup [of example_env "[2020]" "''tmean''" "''out.zarr''" "''D2''" "''4km''"
      "''stable''" "''ftp.prism.oregonstate.edu''" "''ftp''" None init_world, OF prod.collapse [symmetric]]
  obtain evs where "trace (snd ?run) = trace init_world @ evs"
    and "fst ?run = Inr () \<or> (\<exists>s. ToZarr s \<in> set evs) \<longrightarrow>
           (\<exists>before. evs = before @ [ToZarr ''out.zarr'', Rmtree (tmp_path (tmp_count init_world))]
              \<and> (\<forall>e\<in>set before. (\<forall>s. e \<noteq> ToZarr s) \<and> e \<noteq> Rmtree (tmp_path (tmp_count init_world))))"
    by blast
  with ok have "\<exists>before. trace (snd ?run) = before @ [ToZarr ''out.zarr'', Rmtree (tmp_path 0)]"
    by (auto simp: trace_init_world init_world_fields)
  with ok show ?thesis by blast
qed

subsection \<open>C8: a failed day aborts the run before any store is written\<close>

text \<open>
  Claim C8. Suppose the listing of a run succeeds, the days before some URL are
  processed, and the processing of that URL raises \<open>e\<close> (the download fails for good,
  the archive is malformed, the date does not parse, or any other step of the day
  raises). Then \<^const>\<open>main\<close> raises \<open>e\<close>, no \<^verbatim>\<open>to_zarr\<close> call is among the run's effects, and
  the consolidated stores are as they were. Conversely, a run whose effects include a
  \<^verbatim>\<open>to_zarr\<close> call has listed its URLs and processed every one of them, with one
  intermediate path per URL.
\<close>

theorem main_no_store_on_failure:
  assumes "main env years variable outpath version scale stability host protocol kw w = (r, w')"
  defines "fs \<equiv> fsspec_filesystem protocol host 300"
    and "kwargs \<equiv> (case kw of None \<Rightarrow> no_kwargs | Some k \<Rightarrow> k)"
  shows "(\<forall>processed url rest w0 tmpdir w1 paths wa e wb.
            all_urls env fs variable stability scale version years w = (Inr (processed @ url # rest), w0)
            \<and> mkdtemp w0 = (tmpdir, w1)
            \<and> daily_loop env fs variable kwargs tmpdir processed [] w1 = (Inr paths, wa)
            \<and> unpacked_prismzip_bil env url fs (process_day env variable kwargs tmpdir url) wa
                 = (Inl e, wb)
          \<longrightarrow> r = Inl e \<and> zarr_stores w' = zarr_stores w
              \<and> (\<forall>s. ToZarr s \<notin> set (drop (length (trace w)) (trace w'))))
     \<and> ((\<exists>s. ToZarr s \<in> set (drop (length (trace w)) (trace w'))) \<longrightarrow>
          (\<exists>urls w0 tmpdir w1 paths w2.
             all_urls env fs variable stability scale version years w = (Inr urls, w0)
             \<and> mkdtemp w0 = (tmpdir, w1)
             \<and> daily_loop env fs variable kwargs tmpdir urls [] w1 = (Inr paths, w2)
             \<and> length paths = length urls))"
proof -
  have failed: "r = Inl e \<and> zarr_stores w' = zarr_stores w
              \<and> (\<forall>s. ToZarr s \<notin> set (drop (length (trace w)) (trace w')))"
    if h: "all_urls env fs variable stability scale version years w = (Inr (processed @ url # rest), w0)
            \<and> mkdtemp w0 = (tmpdir, w1)
            \<and> daily_loop env fs variable kwargs tmpdir processed [] w1 = (Inr paths, wa)
            \<and> unpacked_prismzip_bil env url fs (process_day env variable kwargs tmpdir url) wa
                 = (Inl e, wb)"
    for processed url rest w0 tmpdir w1 paths wa e wb
  proof -
    from h have h1: "all_urls env (fsspec_filesystem protocol host 300) variable stability scale version
        years w = (Inr (processed @ url # rest), w0)"
      and h2: "mkdtemp w0 = (tmpdir, w1)"
      and h3: "daily_loop env (fsspec_filesystem protocol host 300) variable
        (case kw of None \<Rightarrow> no_kwargs | Some k \<Rightarrow> k) tmpdir (processed @ url # rest) [] w1
        = (Inl e, wb)"
      by (simp_all add: daily_loop_append andthen_def fs_def kwargs_def)
    have "main env years variable outpath version scale stability host protocol kw w
        = (Inl e, rmtree tmpdir wb)
       \<and> zarr_stores (rmtree tmpdir wb) = zarr_stores w
       \<and> (\<exists>evs. trace (rmtree tmpdir wb) = trace w @ evs \<and> (\<forall>s. ToZarr s \<notin> set evs))"
      by (rule main_loop_failed [OF h1 h2 h3])
    with assms(1) show ?thesis
      by auto
  qed
  have written: "\<exists>urls w0 tmpdir w1 paths w2.
             all_urls env fs variable stability scale version years w = (Inr urls, w0)
             \<and> mkdtemp w0 = (tmpdir, w1)
             \<and> daily_loop env fs variable kwargs tmpdir urls [] w1 = (Inr paths, w2)
             \<and> length paths = length urls"
    if z: "\<exists>s. ToZarr s \<in> set (drop (length (trace w)) (trace w'))"
  proof -
    obtain r0 w0 where a: "all_urls env fs variable stability scale version years w = (r0, w0)"
      by (cases "all_urls env fs variable stability scale version years w") auto
    obtain tmpdir w1 where m: "mkdtemp w0 = (tmpdir, w1)"
      by (cases "mkdtemp w0") auto
    show ?thesis
    proof (cases r0)
      case (Inl e)
      from main_enumeration_failed [OF a [unfolded fs_def Inl], of outpath kw] assms(1) z
      show ?thesis by auto
    next
      case (Inr urls)
      obtain r2 w2 where l: "daily_loop env fs variable kwargs tmpdir urls [] w1 = (r2, w2)"
        by (cases "daily_loop env fs variable kwargs tmpdir urls [] w1") auto
      show ?thesis
      proof (cases r2)
        case (Inl e)
        from main_loop_failed [OF a [unfolded fs_def Inr] m l [unfolded fs_def kwargs_def Inl], of outpath]
          assms(1) z
        show ?thesis by auto
      next
        case paths: (Inr paths)
        from daily_loop_events [OF l] paths have "length paths = length urls" by auto
        with a m l Inr paths show ?thesis by blast
      qed
    qed
  qed
  from failed written show ?thesis by blast
qed

text \<open>
  Three runs from the initial state over one year with one archive: the download times
  out three times, the archive has no raster, and the archive's name has no date.
\<close>

theorem main_no_store_on_failure_witness:
  "fst (main (example_env\<lparr>get_file_result := (\<lambda>n fs rpath. Inl TimeoutError)\<rparr>)
          [2020] ''tmean'' ''out.zarr'' ''D2'' ''4km'' ''stable''
          ''ftp.prism.oregonstate.edu'' ''ftp'' None init_world) = Inl TimeoutError
   \<and> zarr_stores (snd (main (example_env\<lparr>get_file_result := (\<lambda>n fs rpath. Inl TimeoutError)\<rparr>)
          [2020] ''tmean'' ''out.zarr'' ''D2'' ''4km'' ''stable''
          ''ftp.prism.oregonstate.edu'' ''ftp'' None init_world)) ''out.zarr'' = None
   \<and> ToZarr ''out.zarr'' \<notin> set (trace (snd (main
          (example_env\<lparr>get_file_result := (\<lambda>n fs rpath. Inl TimeoutError)\<rparr>)
          [2020] ''tmean'' ''out.zarr'' ''D2'' ''4km'' ''stable''
          ''ftp.prism.oregonstate.edu'' ''ftp'' None init_world)))
   \<and> fst (main (example_env\<lparr>zip_members := (\<lambda>data. Inr [Member ''d.hdr'' [1]])\<rparr>)
          [2020] ''tmean'' ''out.zarr'' ''D2'' ''4km'' ''stable''
          ''ftp.prism.oregonstate.edu'' ''ftp'' None init_world) = Inl ZipBilFileError
   \<and> ToZarr ''out.zarr'' \<notin> set (trace (snd (main
          (example_env\<lparr>zip_members := (\<lambda>data. Inr [Member ''d.hdr'' [1]])\<rparr>)
          [2020] ''tmean'' ''out.zarr'' ''D2'' ''4km'' ''stable''
          ''ftp.prism.oregonstate.edu'' ''ftp'' None init_world)))
   \<and> fst (main (store_listing [''/daily/tmean/2020/PRISM_tmean_stable_4kmD2_2020aa01_bil.zip''])
          [2020] ''tmean'' ''out.zarr'' ''D2'' ''4km'' ''stable''
          ''ftp.prism.oregonstate.edu'' ''ftp'' None init_world) = Inl ValueError
   \<and> ToZarr ''out.zarr'' \<notin> set (trace (snd (main
          (store_listing [''/daily/tmean/2020/PRISM_tmean_stable_4kmD2_2020aa01_bil.zip''])
          [2020] ''tmean'' ''out.zarr'' ''D2'' ''4km'' ''stable''
          ''ftp.prism.oregonstate.edu'' ''ftp'' None init_world)))"
proof -
  let ?fs = "fsspec_filesystem ''ftp'' ''ftp.prism.oregonstate.edu'' 300"
  let ?url = "''/daily/tmean/2020/PRISM_tmean_stable_4kmD2_20200101_bil.zip''"
  let ?bad = "''/daily/tmean/2020/PRISM_tmean_stable_4kmD2_2020aa01_bil.zip''"
  let ?kw = "case (None :: preprocess_kwargs option) of None \<Rightarrow> no_kwargs | Some k \<Rightarrow> k"
  have run: "r = Inl e \<and> zarr_stores w' ''out.zarr'' = None \<and> ToZarr ''out.zarr'' \<notin> set (trace w')"
    if listed: "glob_result env 0 ?fs (target_file_glob (YearInt 2020) ''tmean'' ''stable'' ''4km'' ''D2'')
        = Inr [url]"
      and fails: "\<And>d w. fst (unpacked_prismzip_bil env url ?fs
        (process_day env ''tmean'' no_kwargs d url) w) = Inl e"
      and concl: "\<And>processed url rest w0 tmpdir w1 paths wa e wb.
            all_urls env ?fs ''tmean'' ''stable'' ''4km'' ''D2'' [2020] init_world
              = (Inr (processed @ url # rest), w0)
            \<and> mkdtemp w0 = (tmpdir, w1)
            \<and> daily_loop env ?fs ''tmean'' ?kw tmpdir processed [] w1 = (Inr paths, wa)
            \<and> unpacked_prismzip_bil env url ?fs (process_day env ''tmean'' ?kw tmpdir url) wa
                 = (Inl e, wb)
          \<Longrightarrow> r = Inl e \<and> zarr_stores w' = zarr_stores init_world
              \<and> (\<forall>s. ToZarr s \<notin> set (drop (length (trace init_world)) (trace w')))"
    for env :: "unit env" and url e r w'
  proof -
    let ?all = "all_urls env ?fs ''tmean'' ''stable'' ''4km'' ''D2'' [2020] init_world"
    let ?d = "fst (mkdtemp (snd ?all))" and ?w1 = "snd (mkdtemp (snd ?all))"
    let ?day = "unpacked_prismzip_bil env url ?fs (process_day env ''tmean'' no_kwargs ?d url) ?w1"
    have "?all = (Inr ([] @ url # []), snd ?all)"
      using all_urls_one_year [OF listed] by (simp add: prod_eq_iff)
    moreover have "mkdtemp (snd ?all) = (?d, ?w1)" by simp
    moreover have "daily_loop env ?fs ''tmean'' ?kw ?d [] [] ?w1 = (Inr [], ?w1)"
      by (simp add: ret_def)
    moreover have "unpacked_prismzip_bil env url ?fs (process_day env ''tmean'' ?kw ?d url) ?w1
        = (Inl e, snd ?day)"
      using fails [of ?d ?w1] by (simp add: prod_eq_iff)
    ultimately have "r = Inl e \<and> zarr_stores w' = zarr_stores init_world
        \<and> (\<forall>s. ToZarr s \<notin> set (drop (length (trace init_world)) (trace w')))"
      by (intro concl) blast
    then show ?thesis
      by (simp add: init_world_fields trace_init_world)
  qed
  note timeout = main_no_store_on_failure
      [of "example_env\<lparr>get_file_result := (\<lambda>n fs rpath. Inl TimeoutError)\<rparr>" "[2020]" "''tmean''"
          "''out.zarr''" "''D2''" "''4km''" "''stable''" "''ftp.prism.oregonstate.edu''" "''ftp''" None
          init_world, OF prod.collapse [symmetric], THEN conjunct1, rule_format]
  note malformed = main_no_store_on_failure
      [of "example_env\<lparr>zip_members := (\<lambda>data. Inr [Member ''d.hdr'' [1]])\<rparr>" "[2020]" "''tmean''"
          "''out.zarr''" "''D2''" "''4km''" "''stable''" "''ftp.prism.oregonstate.edu''" "''ftp''" None
          init_world, OF prod.collapse [symmetric], THEN conjunct1, rule_format]
  note baddate = main_no_store_on_failure
      [of "store_listing [?bad]" "[2020]" "''tmean''"
          "''out.zarr''" "''D2''" "''4km''" "''stable''" "''ftp.prism.oregonstate.edu''" "''ftp''" None
          init_world, OF prod.collapse [symmetric], THEN conjunct1, rule_format]
  let ?envt = "example_env\<lparr>get_file_result := (\<lambda>n fs rpath. Inl TimeoutError)\<rparr>"
  let ?envm = "example_env\<lparr>zip_members := (\<lambda>data. Inr [Member ''d.hdr'' [1]])\<rparr>"
  let ?envd = "store_listing [?bad]"
  have 1: "fst (main ?envt [2020] ''tmean'' ''out.zarr'' ''D2'' ''4km'' ''stable''
          ''ftp.prism.oregonstate.edu'' ''ftp'' None init_world) = Inl TimeoutError
      \<and> zarr_stores (snd (main ?envt [2020] ''tmean'' ''out.zarr'' ''D2'' ''4km'' ''stable''
          ''ftp.prism.oregonstate.edu'' ''ftp'' None init_world)) ''out.zarr'' = None
      \<and> ToZarr ''out.zarr'' \<notin> set (trace (snd (main ?envt
          [2020] ''tmean'' ''out.zarr'' ''D2'' ''4km'' ''stable''
          ''ftp.prism.oregonstate.edu'' ''ftp'' None init_world)))"
  proof (rule run [of ?envt ?url TimeoutError])
    show "glob_result ?envt 0 ?fs (target_file_glob (YearInt 2020) ''tmean'' ''stable'' ''4km'' ''D2'')
        = Inr [?url]"
      by (simp add: example_env_def store_listing_def)
    show "fst (unpacked_prismzip_bil ?envt ?url ?fs (process_day ?envt ''tmean'' no_kwargs d ?url) w)
        = Inl TimeoutError" for d w
      by (rule unpack_timeout)
  qed (rule timeout)
  have 2: "fst (main ?envm [2020] ''tmean'' ''out.zarr'' ''D2'' ''4km'' ''stable''
          ''ftp.prism.oregonstate.edu'' ''ftp'' None init_world) = Inl ZipBilFileError
      \<and> zarr_stores (snd (main ?envm [2020] ''tmean'' ''out.zarr'' ''D2'' ''4km'' ''stable''
          ''ftp.prism.oregonstate.edu'' ''ftp'' None init_world)) ''out.zarr'' = None
      \<and> ToZarr ''out.zarr'' \<notin> set (trace (snd (main ?envm
          [2020] ''tmean'' ''out.zarr'' ''D2'' ''4km'' ''stable''
          ''ftp.prism.oregonstate.edu'' ''ftp'' None init_world)))"
  proof (rule run [of ?envm ?url ZipBilFileError])
    show "glob_result ?envm 0 ?fs (target_file_glob (YearInt 2020) ''tmean'' ''stable'' ''4km'' ''D2'')
        = Inr [?url]"
      by (simp add: example_env_def store_listing_def)
    show "fst (unpacked_prismzip_bil ?envm ?url ?fs (process_day ?envm ''tmean'' no_kwargs d ?url) w)
        = Inl ZipBilFileError" for d w
      by (rule unpack_no_bil)
  qed (rule malformed)
  have 3: "fst (main ?envd [2020] ''tmean'' ''out.zarr'' ''D2'' ''4km'' ''stable''
          ''ftp.prism.oregonstate.edu'' ''ftp'' None init_world) = Inl ValueError
      \<and> zarr_stores (snd (main ?envd [2020] ''tmean'' ''out.zarr'' ''D2'' ''4km'' ''stable''
          ''ftp.prism.oregonstate.edu'' ''ftp'' None init_world)) ''out.zarr'' = None
      \<and> ToZarr ''out.zarr'' \<notin> set (trace (snd (main ?envd
          [2020] ''tmean'' ''out.zarr'' ''D2'' ''4km'' ''stable''
          ''ftp.prism.oregonstate.edu'' ''ftp'' None init_world)))"
  proof (rule run [of ?envd ?bad ValueError])
    show "glob_result ?envd 0 ?fs (target_file_glob (YearInt 2020) ''tmean'' ''stable'' ''4km'' ''D2'')
        = Inr [?bad]"
      by (simp add: store_listing_def)
    show "fst (unpacked_prismzip_bil ?envd ?bad ?fs (process_day ?envd ''tmean'' no_kwargs d ?bad) w)
        = Inl ValueError" for d w
      by (rule unpack_bad_date)
  qed (rule baddate)
  from 1 2 3 show ?thesis by blast
qed

end
